theory Spec2Isabelle
  imports Main
begin

section \<open>Python values and the operations the module applies to them\<close>

text \<open>
  The job definition reaches the module already parsed from YAML: scalars, lists and
  mappings with string keys. A mapping is an association list; a key is looked up with
  \<open>map_of\<close> (the first binding of a key is the one a lookup sees).
\<close>

datatype pyval =
    PNone
  | PBool bool
  | PInt int
  | PStr string
  | PList "pyval list"
  | PDict "(string \<times> pyval) list"

text \<open>
  Every exception the module itself can raise, and \<open>GitError\<close> for whatever the
  imported \<open>git\<close> function of the scm module raises (that function is not part of
  this file; its exception passes through unchanged and is tagged here by its origin).
\<close>

datatype error =
    KeyError string
  | TypeError
  | AttributeError
  | GitError string

definition bind :: "error + 'a \<Rightarrow> ('a \<Rightarrow> error + 'b) \<Rightarrow> error + 'b" where
  "bind m f = (case m of Inl e \<Rightarrow> Inl e | Inr x \<Rightarrow> f x)"

text \<open>\<open>p\<close> is a prefix of the string; \<open>k in s\<close> for two strings is the substring test.\<close>

fun starts_with :: "string \<Rightarrow> string \<Rightarrow> bool" where
  "starts_with [] s = True"
| "starts_with (p # ps) [] = False"
| "starts_with (p # ps) (c # cs) = (p = c \<and> starts_with ps cs)"

fun contains_str :: "string \<Rightarrow> string \<Rightarrow> bool" where
  "contains_str k [] = (k = [])"
| "contains_str k (c # cs) = (starts_with k (c # cs) \<or> contains_str k cs)"

text \<open>
  \<open>k in v\<close> for a string \<open>k\<close>: key membership for a dict, element membership for a
  list, the substring test for a string, TypeError for a value that is not iterable.
\<close>

definition py_in :: "string \<Rightarrow> pyval \<Rightarrow> error + bool" where
  "py_in k v =
     (case v of
        PDict d \<Rightarrow> Inr (map_of d k \<noteq> None)
      | PList xs \<Rightarrow> Inr (List.member xs (PStr k))
      | PStr s \<Rightarrow> Inr (contains_str k s)
      | _ \<Rightarrow> Inl TypeError)"

text \<open>
  \<open>v[k]\<close> for a string \<open>k\<close>: KeyError naming the key for a dict without it, TypeError
  for every other value (a list or string wants an integer index, the rest has no
  item access).
\<close>

definition py_getitem :: "pyval \<Rightarrow> string \<Rightarrow> error + pyval" where
  "py_getitem v k =
     (case v of
        PDict d \<Rightarrow> (case map_of d k of None \<Rightarrow> Inl (KeyError k) | Some x \<Rightarrow> Inr x)
      | _ \<Rightarrow> Inl TypeError)"

text \<open>\<open>v.get(k, default)\<close>: only a dict has the method.\<close>

definition py_get :: "pyval \<Rightarrow> string \<Rightarrow> pyval \<Rightarrow> error + pyval" where
  "py_get v k dflt =
     (case v of
        PDict d \<Rightarrow> (case map_of d k of None \<Rightarrow> Inr dflt | Some x \<Rightarrow> Inr x)
      | _ \<Rightarrow> Inl AttributeError)"

text \<open>
  The items a \<open>for\<close> loop over the value visits: the elements of a list, the
  one-character strings of a string, the keys of a dict (here in the order of the
  association list); TypeError for a value that is not iterable.
\<close>

definition py_iter :: "pyval \<Rightarrow> error + pyval list" where
  "py_iter v =
     (case v of
        PList xs \<Rightarrow> Inr xs
      | PStr s \<Rightarrow> Inr (map (\<lambda>c. PStr [c]) s)
      | PDict d \<Rightarrow> Inr (map (\<lambda>kv. PStr (fst kv)) d)
      | _ \<Rightarrow> Inl TypeError)"

text \<open>\<open>isinstance(v, dict)\<close>.\<close>

definition is_dict :: "pyval \<Rightarrow> bool" where
  "is_dict v = (case v of PDict d \<Rightarrow> True | _ \<Rightarrow> False)"

text \<open>Decimal digits, for \<open>str\<close> of an integer.\<close>

fun show_nat :: "nat \<Rightarrow> string" where
  "show_nat n =
     (if n < 10 then [''0123456789'' ! n]
      else show_nat (n div 10) @ [''0123456789'' ! (n mod 10)])"

declare show_nat.simps [simp del]

definition show_int :: "int \<Rightarrow> string" where
  "show_int i = (if i < 0 then CHR ''-'' # show_nat (nat (- i)) else show_nat (nat i))"

text \<open>
  \<open>str(v)\<close>. For a list or a dict Python prints the \<open>repr\<close> of the parts, quoting
  and escaping strings and (for a dict) in hash order; that part is the parameter
  \<open>repr\<close>.
\<close>

definition py_str :: "(pyval \<Rightarrow> string) \<Rightarrow> pyval \<Rightarrow> string" where
  "py_str repr v =
     (case v of
        PNone \<Rightarrow> ''None''
      | PBool b \<Rightarrow> (if b then ''True'' else ''False'')
      | PInt i \<Rightarrow> show_int i
      | PStr s \<Rightarrow> s
      | _ \<Rightarrow> repr v)"

text \<open>\<open>s.lower()\<close> on the ASCII letters.\<close>

definition lower_char :: "char \<Rightarrow> char" where
  "lower_char c =
     (case map_of (zip ''ABCDEFGHIJKLMNOPQRSTUVWXYZ'' ''abcdefghijklmnopqrstuvwxyz'') c of
        Some d \<Rightarrow> d
      | None \<Rightarrow> c)"

definition lower :: "string \<Rightarrow> string" where
  "lower s = map lower_char s"


section \<open>The element tree\<close>

text \<open>
  An \<open>xml.etree.ElementTree\<close> element: tag, attributes in the order they were set,
  text (\<open>PNone\<close> while none was assigned; the module assigns configuration values
  as they are) and the children in order.
\<close>

datatype xml = Element (tag: string) (attrib: "(string \<times> string) list") (text_of: pyval)
  (children: "xml list")

text \<open>\<open>XML.SubElement(parent, ...)\<close> and \<open>parent.append(child)\<close>: the new last child.\<close>

definition add_child :: "xml \<Rightarrow> xml \<Rightarrow> xml" where
  "add_child parent child =
     Element (tag parent) (attrib parent) (text_of parent) (children parent @ [child])"

text \<open>\<open>element.find(name)\<close> for a plain tag name: the first child with that tag.\<close>

definition find_tag :: "string \<Rightarrow> xml \<Rightarrow> xml option" where
  "find_tag name element = List.find (\<lambda>c. tag c = name) (children element)"

text \<open>
  The truth value of an element in a condition: ElementTree defines it as
  \<open>len(element) != 0\<close>, so an element without children is false.
\<close>

definition element_bool :: "xml \<Rightarrow> bool" where
  "element_bool element = (children element \<noteq> [])"

text \<open>Removal of the child at a position (the scratch node is removed by identity).\<close>

definition remove_at :: "nat \<Rightarrow> xml \<Rightarrow> xml" where
  "remove_at i parent =
     Element (tag parent) (attrib parent) (text_of parent)
       (take i (children parent) @ drop (Suc i) (children parent))"


section \<open>Collaborators and state\<close>

text \<open>
  What the module calls but does not define: \<open>git\<close> of the scm module, given the git
  mapping, fills the scratch element with children or raises; \<open>uuid4\<close> gives the text
  of the n-th random identifier drawn; \<open>py_repr\<close> is \<open>repr\<close> for lists and dicts.
\<close>

record collab =
  git :: "pyval \<Rightarrow> string + xml list"
  uuid4 :: "nat \<Rightarrow> string"
  py_repr :: "pyval \<Rightarrow> string"

text \<open>What a run changes outside the tree: identifiers drawn so far, and the logger's lines.\<close>

record state =
  uuid_calls :: nat
  warnings :: "string list"

definition warn :: "string \<Rightarrow> state \<Rightarrow> state" where
  "warn msg st = st\<lparr>warnings := warnings st @ [msg]\<rparr>"


section \<open>Branch strategies\<close>

definition no_trigger_array :: xml where
  "no_trigger_array =
     Element ''a'' [(''class'', ''jenkins.branch.BranchProperty-array'')] PNone
       [Element ''jenkins.branch.NoTriggerBranchProperty'' [] PNone []]"

definition generate_default_source_strategy :: "xml \<Rightarrow> xml" where
  "generate_default_source_strategy xml_parent =
     add_child xml_parent
       (Element ''strategy'' [(''class'', ''jenkins.branch.DefaultBranchPropertyStrategy'')] PNone
          [Element ''properties'' [(''class'', ''empty-list'')] PNone []])"

definition named_exception :: "pyval \<Rightarrow> xml" where
  "named_exception exception =
     Element ''jenkins.branch.NamedExceptionsBranchPropertyStrategy_-Named'' [] PNone
       [Element ''props'' [(''class'', ''java.util.Arrays$ArrayList'')] PNone [no_trigger_array],
        Element ''name'' [] exception []]"

text \<open>The loop over \<open>data['exceptions']\<close>: one log line and one entry per item.\<close>

fun exceptions_loop :: "collab \<Rightarrow> pyval list \<Rightarrow> xml \<Rightarrow> state \<Rightarrow> xml \<times> state" where
  "exceptions_loop C [] named_exceptions_a st = (named_exceptions_a, st)"
| "exceptions_loop C (exception # rest) named_exceptions_a st =
     exceptions_loop C rest
       (add_child named_exceptions_a (named_exception exception))
       (warn (''Exception found for branch '' @ py_str (py_repr C) exception) st)"

definition generate_source_strategy ::
  "collab \<Rightarrow> xml \<Rightarrow> pyval \<Rightarrow> state \<Rightarrow> error + (xml \<times> state)" where
  "generate_source_strategy C xml_parent data st =
     bind (py_in ''exceptions'' data) (\<lambda>has_exceptions.
       if has_exceptions then
         bind (py_getitem data ''exceptions'') (\<lambda>exceptions.
         bind (py_iter exceptions) (\<lambda>items.
           let (named_exceptions_a, st') =
                 exceptions_loop C items
                   (Element ''a''
                      [(''class'',
                        ''jenkins.branch.NamedExceptionsBranchPropertyStrategy$Named-array'')]
                      PNone [])
                   (warn ''contains git strategy exceptions'' st)
           in Inr (add_child xml_parent
                 (Element ''strategy''
                    [(''class'', ''jenkins.branch.NamedExceptionsBranchPropertyStrategy'')] PNone
                    [Element ''defaultProperties''
                       [(''class'', ''java.util.Arrays$ArrayList'')] PNone [no_trigger_array],
                     Element ''namedExceptions''
                       [(''class'', ''java.util.Arrays$ArrayList'')] PNone [named_exceptions_a]]),
               st')))
       else
         Inr (add_child xml_parent
               (Element ''strategy''
                  [(''class'', ''jenkins.branch.DefaultBranchPropertyStrategy'')] PNone
                  [Element ''properties''
                     [(''class'', ''java.util.Arrays$ArrayList'')] PNone [no_trigger_array]]),
              warn ''contains simple git strategy'' st))"


section \<open>Git sources\<close>

text \<open>
  \<open>generate_git_scm_xml\<close>. The statements run in the source's order, so the first
  failing one decides the exception: the \<open>get\<close> on the git value, the identifier,
  \<open>url\<close>, \<open>credentials-id\<close>, \<open>includes\<close>, \<open>excludes\<close>. A missing \<open>excludes\<close> adds
  the empty child at once, before the loop over \<open>git_element_list\<close> adds the others.
  The scratch element \<open>temp-git\<close> is appended, filled by \<open>git\<close>, searched, and removed
  from the position it was appended at.
\<close>

definition generate_git_scm_xml ::
  "collab \<Rightarrow> xml \<Rightarrow> pyval \<Rightarrow> state \<Rightarrow> error + (xml \<times> state)" where
  "generate_git_scm_xml C xml_parent data st =
     (let git_source =
            Element ''source''
              [(''class'', ''jenkins.plugins.git.GitSCMSource''), (''plugin'', ''git'')] PNone []
      in
      bind (py_get data ''ignore-on-push-notifications'' (PBool True)) (\<lambda>ignore_on_push.
      let uuid = uuid4 C (uuid_calls st);
          st' = st\<lparr>uuid_calls := Suc (uuid_calls st)\<rparr>
      in
      bind (py_getitem data ''url'') (\<lambda>url.
      bind (py_getitem data ''credentials-id'') (\<lambda>credentials_id.
      bind (py_get data ''includes'' (PStr ''*'')) (\<lambda>includes.
      let git_element_list =
            [(''id'', PStr uuid),
             (''remote'', url),
             (''credentialsId'', credentials_id),
             (''ignoreOnPushNotifications'', PStr (lower (py_str (py_repr C) ignore_on_push))),
             (''includes'', includes)]
      in
      bind (py_in ''excludes'' data) (\<lambda>has_excludes.
      bind (if has_excludes
            then bind (py_getitem data ''excludes'') (\<lambda>excludes.
                   Inr (git_element_list @ [(''excludes'', excludes)], git_source))
            else Inr (git_element_list, add_child git_source (Element ''excludes'' [] PNone [])))
        (\<lambda>(git_element_list, git_source).
      let git_source =
            fold (\<lambda>item src. add_child src (Element (fst item) [] (snd item) []))
              git_element_list git_source;
          temp_at = length (children git_source)
      in
      bind (case git C data of Inl msg \<Rightarrow> Inl (GitError msg) | Inr made \<Rightarrow> Inr made)
        (\<lambda>made.
      let temp_xml = Element ''temp-git'' [] PNone made;
          git_source = add_child git_source temp_xml;
          git_source =
            (case find_tag ''scm'' temp_xml of
               None \<Rightarrow> git_source
             | Some temp_xml_scm \<Rightarrow>
                 if element_bool temp_xml_scm then
                   (case find_tag ''extensions'' temp_xml_scm of
                      None \<Rightarrow> git_source
                    | Some temp_extensions \<Rightarrow>
                        if element_bool temp_extensions
                        then add_child git_source temp_extensions
                        else git_source)
                 else git_source)
      in Inr (add_child xml_parent (remove_at temp_at git_source), st')))))))))"


section \<open>The project document\<close>

definition root_element :: xml where
  "root_element =
     Element ''org.jenkinsci.plugins.workflow.multibranch.WorkflowMultiBranchProject''
       [(''plugin'', ''workflow-multibranch'')] PNone []"

definition folder_credentials_provider :: xml where
  "folder_credentials_provider =
     Element
       ''com.cloudbees.hudson.plugins.folder.properties.FolderCredentialsProvider_-FolderCredentialsProperty''
       [(''plugin'', ''cloudbees-folder'')] PNone
       [Element ''domainCredentialsMap'' [(''class'', ''hudson.util.CopyOnWriteMap$Hash'')] PNone
          [Element ''entry'' [] PNone
             [Element ''com.cloudbees.plugins.credentials.domains.Domain''
                [(''plugin'', ''credentials'')] PNone [Element ''specifications'' [] PNone []],
              Element ''java.util.concurrent.CopyOnWriteArrayList'' [] PNone []]]]"

text \<open>Lines 156 to 174: the properties block, with the environment property when present.\<close>

definition properties_block :: "pyval \<Rightarrow> error + xml" where
  "properties_block project_def =
     bind (py_in ''env-properties'' project_def) (\<lambda>has_env.
       if has_env then
         bind (py_getitem project_def ''env-properties'') (\<lambda>env.
           Inr (Element ''properties'' [] PNone
                  [folder_credentials_provider,
                   Element ''com.cloudbees.hudson.plugins.folder.properties.EnvVarsFolderProperty''
                     [(''plugin'', ''cloudbees-folders-plus'')] PNone
                     [Element ''properties'' [] env []]]))
       else Inr (Element ''properties'' [] PNone [folder_credentials_provider]))"

definition views :: xml where
  "views =
     Element ''views'' [] PNone
       [Element ''hudson.model.AllView'' [] PNone
          [Element ''owner''
             [(''class'', ''org.jenkinsci.plugins.workflow.multibranch.WorkflowMultiBranchProject''),
              (''reference'', ''../../..'')] PNone [],
           Element ''name'' [] (PStr ''All'') [],
           Element ''filterExecutors'' [] (PStr ''false'') [],
           Element ''filterQueue'' [] (PStr ''false'') [],
           Element ''properties'' [(''class'', ''hudson.model.View$PropertyList'')] PNone []]]"

definition views_tab_bar :: xml where
  "views_tab_bar =
     Element ''viewsTabBar'' [(''class'', ''hudson.views.DefaultViewsTabBar'')] PNone []"

definition health_metrics :: xml where
  "health_metrics =
     Element ''healthMetrics'' [] PNone
       [Element ''com.cloudbees.hudson.plugins.folder.health.WorstChildHealthMetric''
          [(''plugin'', ''cloudbees-folder'')] PNone []]"

definition icon :: xml where
  "icon =
     Element ''icon''
       [(''class'', ''com.cloudbees.hudson.plugins.folder.icons.StockFolderIcon''),
        (''plugin'', ''cloudbees-folder'')] PNone []"

text \<open>
  Lines 202 to 212. The \<open>get\<close> for \<open>prune-dead-branches\<close> runs only when the key is
  in the mapping, so its default is never the value.
\<close>

definition orphaned_item_strategy :: "collab \<Rightarrow> pyval \<Rightarrow> error + xml" where
  "orphaned_item_strategy C project_def =
     bind (py_in ''prune-dead-branches'' project_def) (\<lambda>has_prune.
     bind (if has_prune then
             bind (py_get project_def ''prune-dead-branches'' (PBool False))
               (\<lambda>prune_dead_branches.
                 Inr [Element ''pruneDeadBranches'' []
                        (PStr (lower (py_str (py_repr C) prune_dead_branches))) []])
           else Inr [])
       (\<lambda>prune.
     bind (py_get project_def ''days-to-keep'' (PStr ''-1'')) (\<lambda>days_to_keep.
     bind (py_get project_def ''number-to-keep'' (PStr ''-1'')) (\<lambda>number_to_keep.
       Inr (Element ''orphanedItemStrategy''
              [(''class'',
                ''com.cloudbees.hudson.plugins.folder.computed.DefaultOrphanedItemStrategy''),
               (''plugin'', ''cloudbees-folder'')] PNone
              (prune @
               [Element ''daysToKeep'' [] days_to_keep [],
                Element ''numToKeep'' [] number_to_keep []]))))))"

text \<open>Lines 214 to 222: the two required fields are read with \<open>project_def[...]\<close>.\<close>

definition triggers_block :: "pyval \<Rightarrow> error + xml" where
  "triggers_block project_def =
     bind (py_in ''timer-trigger'' project_def) (\<lambda>has_timer.
     bind (if has_timer then
             bind (py_getitem project_def ''timer-trigger'') (\<lambda>spec.
               Inr [Element ''hudson.triggers.TimerTrigger'' [] PNone
                      [Element ''spec'' [] spec []]])
           else Inr [])
       (\<lambda>timer.
     bind (py_getitem project_def ''periodic-folder-spec'') (\<lambda>spec.
     bind (py_getitem project_def ''periodic-folder-interval'') (\<lambda>interval.
       Inr (Element ''triggers'' [] PNone
              (timer @
               [Element ''com.cloudbees.hudson.plugins.folder.computed.PeriodicFolderTrigger''
                  [(''plugin'', ''cloudbees-folder'')] PNone
                  [Element ''spec'' [] spec [], Element ''interval'' [] interval []]]))))))"

text \<open>The body of the loop over \<open>project_def['scm']\<close> (lines 231 to 242).\<close>

definition scm_entry :: "collab \<Rightarrow> pyval \<Rightarrow> xml \<Rightarrow> state \<Rightarrow> error + (xml \<times> state)" where
  "scm_entry C git_data sources_data st =
     (let st = warn (''git_data = '' @ py_str (py_repr C) git_data) st in
      if is_dict git_data \<and> py_in ''git'' git_data = Inr True then
        bind (py_getitem git_data ''git'') (\<lambda>git_value.
        bind (generate_git_scm_xml C (Element ''jenkins.branch.BranchSource'' [] PNone [])
                git_value st)
          (\<lambda>(branch_source, st).
        bind (py_in ''strategy'' git_value) (\<lambda>has_strategy.
        bind (if has_strategy then
                bind (py_getitem git_value ''strategy'') (\<lambda>strategy.
                  generate_source_strategy C branch_source strategy st)
              else Inr (generate_default_source_strategy branch_source, st))
          (\<lambda>(branch_source, st).
            Inr (add_child sources_data branch_source, st)))))
      else Inr (sources_data, warn ''We cannot process scm'' st))"

fun scm_loop :: "collab \<Rightarrow> pyval list \<Rightarrow> xml \<Rightarrow> state \<Rightarrow> error + (xml \<times> state)" where
  "scm_loop C [] sources_data st = Inr (sources_data, st)"
| "scm_loop C (git_data # rest) sources_data st =
     bind (scm_entry C git_data sources_data st)
       (\<lambda>(sources_data, st). scm_loop C rest sources_data st)"

text \<open>Lines 224 to 246: the sources block around the loop.\<close>

definition sources_block :: "collab \<Rightarrow> pyval \<Rightarrow> state \<Rightarrow> error + (xml \<times> state)" where
  "sources_block C project_def st =
     bind (py_in ''scm'' project_def) (\<lambda>has_scm.
     bind (if has_scm then
             bind (py_getitem project_def ''scm'') (\<lambda>scm.
             bind (py_iter scm) (\<lambda>entries.
               scm_loop C entries (Element ''data'' [] PNone []) st))
           else Inr (Element ''data'' [] PNone [], st))
       (\<lambda>(sources_data, st).
         Inr (Element ''sources''
                [(''class'', ''jenkins.branch.MultiBranchProject$BranchSourceList''),
                 (''plugin'', ''branch-api'')] PNone
                [sources_data,
                 Element ''owner''
                   [(''class'',
                     ''org.jenkinsci.plugins.workflow.multibranch.WorkflowMultiBranchProject''),
                    (''reference'', ''../..'')] PNone []],
              st)))"

definition factory :: xml where
  "factory =
     Element ''factory''
       [(''class'', ''org.jenkinsci.plugins.workflow.multibranch.WorkflowBranchProjectFactory'')]
       PNone
       [Element ''owner''
          [(''class'', ''org.jenkinsci.plugins.workflow.multibranch.WorkflowMultiBranchProject''),
           (''reference'', ''../..'')] PNone []]"

text \<open>
  \<open>root_xml\<close>: the bare root element when \<open>multibranch\<close> is not in the data, the nine
  sections in the source's order otherwise.
\<close>

definition root_xml :: "collab \<Rightarrow> pyval \<Rightarrow> state \<Rightarrow> error + (xml \<times> state)" where
  "root_xml C data st =
     bind (py_in ''multibranch'' data) (\<lambda>has_multibranch.
       if \<not> has_multibranch then Inr (root_element, st)
       else
         bind (py_getitem data ''multibranch'') (\<lambda>project_def.
         bind (properties_block project_def) (\<lambda>properties.
         bind (orphaned_item_strategy C project_def) (\<lambda>orphaned.
         bind (triggers_block project_def) (\<lambda>triggers.
         bind (sources_block C project_def st) (\<lambda>(sources, st).
           Inr (Element (tag root_element) (attrib root_element) PNone
                  [properties, views, views_tab_bar, health_metrics, icon, orphaned,
                   triggers, sources, factory],
                st)))))))"


section \<open>Vocabulary for the properties\<close>

text \<open>
  What lines 282 to 285 append to the source node, given the children \<open>git\<close> made in
  the scratch element: the first \<open>extensions\<close> child of the first \<open>scm\<close> child, when
  both are there and both are true as conditions (have a child of their own).
\<close>

definition spliced :: "xml list \<Rightarrow> xml list" where
  "spliced made =
     (case find_tag ''scm'' (Element ''temp-git'' [] PNone made) of
        None \<Rightarrow> []
      | Some temp_xml_scm \<Rightarrow>
          if element_bool temp_xml_scm then
            (case find_tag ''extensions'' temp_xml_scm of
               None \<Rightarrow> []
             | Some temp_extensions \<Rightarrow> if element_bool temp_extensions then [temp_extensions] else [])
          else [])"

text \<open>A node with the given tag occurs in the tree (the root included).\<close>

fun occurs :: "string \<Rightarrow> xml \<Rightarrow> bool" and occurs_in :: "string \<Rightarrow> xml list \<Rightarrow> bool" where
  "occurs name (Element t a x cs) = (t = name \<or> occurs_in name cs)"
| "occurs_in name [] = False"
| "occurs_in name (c # cs) = (occurs name c \<or> occurs_in name cs)"

text \<open>
  The tree with the text of the \<open>id\<close> children of every git source node taken out;
  everything else stays.
\<close>

definition is_git_source :: "string \<Rightarrow> (string \<times> string) list \<Rightarrow> bool" where
  "is_git_source t a =
     (t = ''source'' \<and> map_of a ''class'' = Some ''jenkins.plugins.git.GitSCMSource'')"

definition without_text :: "xml \<Rightarrow> xml" where
  "without_text element = Element (tag element) (attrib element) PNone (children element)"

fun forget_ids :: "xml \<Rightarrow> xml" where
  "forget_ids (Element t a x cs) =
     Element t a x
       (map (\<lambda>c. if is_git_source t a \<and> tag c = ''id''
                 then without_text (forget_ids c) else forget_ids c) cs)"

text \<open>A result with the identifiers of its tree forgotten.\<close>

definition forget :: "error + (xml \<times> state) \<Rightarrow> error + (xml \<times> state)" where
  "forget r = (case r of Inl err \<Rightarrow> Inl err | Inr (x, st) \<Rightarrow> Inr (forget_ids x, st))"

text \<open>A result without the log: the exception, or the tree and the identifiers drawn.\<close>

definition outcome :: "error + (xml \<times> state) \<Rightarrow> error + (xml \<times> nat)" where
  "outcome r = (case r of Inl err \<Rightarrow> Inl err | Inr (x, st) \<Rightarrow> Inr (x, uuid_calls st))"

text \<open>The two log lines of a skipped entry (lines 231 and 242).\<close>

definition skip_notices :: "collab \<Rightarrow> pyval \<Rightarrow> string list" where
  "skip_notices C git_data =
     [''git_data = '' @ py_str (py_repr C) git_data, ''We cannot process scm'']"

text \<open>The entry passes the test of line 232.\<close>

definition recognised :: "pyval \<Rightarrow> bool" where
  "recognised git_data = (is_dict git_data \<and> py_in ''git'' git_data = Inr True)"


section \<open>Concrete inputs\<close>

text \<open>
  A \<open>git\<close> that makes an \<open>scm\<close> node with one extension, as the scm module does for
  the defaults; one whose \<open>extensions\<close> node stays empty; a state before any call.
\<close>

definition example_scm :: "xml list \<Rightarrow> xml list" where
  "example_scm exts =
     [Element ''scm'' [(''class'', ''hudson.plugins.git.GitSCM'')] PNone
        [Element ''configVersion'' [] (PStr ''2'') [],
         Element ''extensions'' [] PNone exts]]"

definition example_collab :: collab where
  "example_collab =
     \<lparr>git = (\<lambda>data. Inr (example_scm
               [Element ''hudson.plugins.git.extensions.impl.WipeWorkspace'' [] PNone []])),
      uuid4 = (\<lambda>n. ''uuid-'' @ show_nat n),
      py_repr = (\<lambda>v. ''<repr>'')\<rparr>"

definition other_collab :: collab where
  "other_collab = example_collab\<lparr>uuid4 := (\<lambda>n. ''other-'' @ show_nat n)\<rparr>"


definition fresh :: state where
  "fresh = \<lparr>uuid_calls = 0, warnings = []\<rparr>"

definition example_git :: "(string \<times> pyval) list" where
  "example_git = [(''url'', PStr ''https://x/y.git''), (''credentials-id'', PStr ''c1'')]"

definition example_multibranch :: "pyval list \<Rightarrow> (string \<times> pyval) list" where
  "example_multibranch entries =
     [(''periodic-folder-spec'', PStr ''H/5 * * * *''),
      (''periodic-folder-interval'', PStr ''300000''),
      (''scm'', PList entries)]"


section \<open>Basic facts\<close>

lemma bind_Inr [simp]: "bind (Inr x) f = f x"
  by (simp add: bind_def)

lemma bind_Inl [simp]: "bind (Inl e) f = Inl e"
  by (simp add: bind_def)

lemma py_in_dict [simp]: "py_in k (PDict d) = Inr (map_of d k \<noteq> None)"
  by (simp add: py_in_def)

lemma py_getitem_dict [simp]:
  "py_getitem (PDict d) k = (case map_of d k of None \<Rightarrow> Inl (KeyError k) | Some x \<Rightarrow> Inr x)"
  by (simp add: py_getitem_def)

lemma py_get_dict [simp]:
  "py_get (PDict d) k dflt = Inr (case map_of d k of None \<Rightarrow> dflt | Some x \<Rightarrow> x)"
  by (simp add: py_get_def split: option.split)


lemma example_git_made:
  "git example_collab d = Inr (example_scm
     [Element ''hudson.plugins.git.extensions.impl.WipeWorkspace'' [] PNone []])"
  by (simp add: example_collab_def)


lemma find_tag_simp [simp]:
  "find_tag name (Element t a x cs) = List.find (\<lambda>c. tag c = name) cs"
  by (simp add: find_tag_def)

lemma element_bool_simp [simp]: "element_bool (Element t a x cs) = (cs \<noteq> [])"
  by (simp add: element_bool_def)

lemma add_child_simp [simp]:
  "add_child (Element t a x cs) c = Element t a x (cs @ [c])"
  by (simp add: add_child_def)

lemma remove_at_simp [simp]:
  "remove_at i (Element t a x cs) = Element t a x (take i cs @ drop (Suc i) cs)"
  by (simp add: remove_at_def)

lemma remove_at_scratch:
  "remove_at (length cs) (Element t a x (cs @ temp # others)) = Element t a x (cs @ others)"
  by simp

text \<open>What the git source generator returns for a mapping, statement by statement.\<close>

lemma generate_git_scm_xml_dict:
  "generate_git_scm_xml C xml_parent (PDict g) st =
     (case map_of g ''url'' of
        None \<Rightarrow> Inl (KeyError ''url'')
      | Some url \<Rightarrow>
     (case map_of g ''credentials-id'' of
        None \<Rightarrow> Inl (KeyError ''credentials-id'')
      | Some credentials_id \<Rightarrow>
     (case git C (PDict g) of
        Inl msg \<Rightarrow> Inl (GitError msg)
      | Inr made \<Rightarrow>
          Inr (add_child xml_parent
                 (Element ''source''
                    [(''class'', ''jenkins.plugins.git.GitSCMSource''), (''plugin'', ''git'')] PNone
                    ((case map_of g ''excludes'' of
                        None \<Rightarrow> [Element ''excludes'' [] PNone []]
                      | Some excludes \<Rightarrow> []) @
                     [Element ''id'' [] (PStr (uuid4 C (uuid_calls st))) [],
                      Element ''remote'' [] url [],
                      Element ''credentialsId'' [] credentials_id [],
                      Element ''ignoreOnPushNotifications'' []
                        (PStr (lower (py_str (py_repr C)
                           (case map_of g ''ignore-on-push-notifications'' of
                              None \<Rightarrow> PBool True
                            | Some v \<Rightarrow> v)))) [],
                      Element ''includes'' []
                        (case map_of g ''includes'' of None \<Rightarrow> PStr ''*'' | Some v \<Rightarrow> v) []] @
                     (case map_of g ''excludes'' of
                        None \<Rightarrow> []
                      | Some excludes \<Rightarrow> [Element ''excludes'' [] excludes []]) @
                     spliced made)),
               st\<lparr>uuid_calls := Suc (uuid_calls st)\<rparr>))))"
  by (simp add: generate_git_scm_xml_def spliced_def Let_def
           split: option.split sum.split)


lemma spliced_explicit:
  "spliced made =
     (case find_tag ''scm'' (Element ''temp-git'' [] PNone made) of
        None \<Rightarrow> []
      | Some temp_xml_scm \<Rightarrow>
          (case find_tag ''extensions'' temp_xml_scm of
             None \<Rightarrow> []
           | Some temp_extensions \<Rightarrow>
               if children temp_extensions = [] then [] else [temp_extensions]))"
proof (cases "List.find (\<lambda>c. tag c = ''scm'') made")
  case None
  then show ?thesis by (simp add: spliced_def)
next
  case (Some scm)
  show ?thesis
  proof (cases "children scm = []")
    case True
    with Some show ?thesis
      by (simp add: spliced_def element_bool_def find_tag_def)
  next
    case False
    with Some show ?thesis
      by (simp add: spliced_def element_bool_def find_tag_def split: option.split)
  qed
qed

lemma exceptions_loop_eq:
  "exceptions_loop C items (Element t a x cs) st =
     (Element t a x (cs @ map named_exception items),
      st\<lparr>warnings := warnings st @
         map (\<lambda>exception. ''Exception found for branch '' @ py_str (py_repr C) exception)
           items\<rparr>)"
  by (induction items arbitrary: cs st) (simp_all add: warn_def)

lemma generate_source_strategy_dict:
  "generate_source_strategy C xml_parent (PDict s) st =
     (case map_of s ''exceptions'' of
        None \<Rightarrow>
          Inr (add_child xml_parent
                 (Element ''strategy''
                    [(''class'', ''jenkins.branch.DefaultBranchPropertyStrategy'')] PNone
                    [Element ''properties''
                       [(''class'', ''java.util.Arrays$ArrayList'')] PNone [no_trigger_array]]),
               warn ''contains simple git strategy'' st)
      | Some exceptions \<Rightarrow>
          bind (py_iter exceptions) (\<lambda>items.
            Inr (add_child xml_parent
                   (Element ''strategy''
                      [(''class'', ''jenkins.branch.NamedExceptionsBranchPropertyStrategy'')] PNone
                      [Element ''defaultProperties''
                         [(''class'', ''java.util.Arrays$ArrayList'')] PNone [no_trigger_array],
                       Element ''namedExceptions''
                         [(''class'', ''java.util.Arrays$ArrayList'')] PNone
                         [Element ''a''
                            [(''class'',
                              ''jenkins.branch.NamedExceptionsBranchPropertyStrategy$Named-array'')]
                            PNone (map named_exception items)]]),
                 (warn ''contains git strategy exceptions'' st)
                   \<lparr>warnings := warnings (warn ''contains git strategy exceptions'' st) @
                      map (\<lambda>exception.
                             ''Exception found for branch '' @ py_str (py_repr C) exception)
                        items\<rparr>)))"
  by (simp add: generate_source_strategy_def exceptions_loop_eq split: option.split)

lemma properties_block_dict:
  "properties_block (PDict pd) =
     Inr (Element ''properties'' [] PNone
            (folder_credentials_provider #
             (case map_of pd ''env-properties'' of
                None \<Rightarrow> []
              | Some env \<Rightarrow>
                  [Element ''com.cloudbees.hudson.plugins.folder.properties.EnvVarsFolderProperty''
                     [(''plugin'', ''cloudbees-folders-plus'')] PNone
                     [Element ''properties'' [] env []]])))"
  by (simp add: properties_block_def split: option.split)

lemma orphaned_item_strategy_dict:
  "orphaned_item_strategy C (PDict pd) =
     Inr (Element ''orphanedItemStrategy''
            [(''class'', ''com.cloudbees.hudson.plugins.folder.computed.DefaultOrphanedItemStrategy''),
             (''plugin'', ''cloudbees-folder'')] PNone
            ((case map_of pd ''prune-dead-branches'' of
                None \<Rightarrow> []
              | Some v \<Rightarrow>
                  [Element ''pruneDeadBranches'' [] (PStr (lower (py_str (py_repr C) v))) []]) @
             [Element ''daysToKeep'' []
                (case map_of pd ''days-to-keep'' of None \<Rightarrow> PStr ''-1'' | Some v \<Rightarrow> v) [],
              Element ''numToKeep'' []
                (case map_of pd ''number-to-keep'' of None \<Rightarrow> PStr ''-1'' | Some v \<Rightarrow> v) []]))"
  by (simp add: orphaned_item_strategy_def split: option.split)

lemma triggers_block_dict:
  "triggers_block (PDict pd) =
     (case map_of pd ''periodic-folder-spec'' of
        None \<Rightarrow> Inl (KeyError ''periodic-folder-spec'')
      | Some spec \<Rightarrow>
     (case map_of pd ''periodic-folder-interval'' of
        None \<Rightarrow> Inl (KeyError ''periodic-folder-interval'')
      | Some interval \<Rightarrow>
          Inr (Element ''triggers'' [] PNone
                 ((case map_of pd ''timer-trigger'' of
                     None \<Rightarrow> []
                   | Some spec \<Rightarrow>
                       [Element ''hudson.triggers.TimerTrigger'' [] PNone
                          [Element ''spec'' [] spec []]]) @
                  [Element ''com.cloudbees.hudson.plugins.folder.computed.PeriodicFolderTrigger''
                     [(''plugin'', ''cloudbees-folder'')] PNone
                     [Element ''spec'' [] spec [], Element ''interval'' [] interval []]]))))"
  by (simp add: triggers_block_def split: option.split)

text \<open>The document for a \<open>multibranch\<close> mapping, block by block.\<close>

lemma root_xml_dict:
  assumes "map_of d ''multibranch'' = Some (PDict pd)"
  shows "root_xml C (PDict d) st =
     bind (properties_block (PDict pd)) (\<lambda>properties.
     bind (orphaned_item_strategy C (PDict pd)) (\<lambda>orphaned.
     bind (triggers_block (PDict pd)) (\<lambda>triggers.
     bind (sources_block C (PDict pd) st) (\<lambda>(sources, st).
       Inr (Element ''org.jenkinsci.plugins.workflow.multibranch.WorkflowMultiBranchProject''
              [(''plugin'', ''workflow-multibranch'')] PNone
              [properties, views, views_tab_bar, health_metrics, icon, orphaned,
               triggers, sources, factory],
            st)))))"
  using assms by (simp add: root_xml_def root_element_def)

lemma root_xml_document:
  assumes "map_of d ''multibranch'' = Some (PDict pd)"
    and "root_xml C (PDict d) st = Inr (document, st')"
  shows "\<exists>properties orphaned triggers sources.
     properties_block (PDict pd) = Inr properties \<and>
     orphaned_item_strategy C (PDict pd) = Inr orphaned \<and>
     triggers_block (PDict pd) = Inr triggers \<and>
     sources_block C (PDict pd) st = Inr (sources, st') \<and>
     document =
       Element ''org.jenkinsci.plugins.workflow.multibranch.WorkflowMultiBranchProject''
         [(''plugin'', ''workflow-multibranch'')] PNone
         [properties, views, views_tab_bar, health_metrics, icon, orphaned,
          triggers, sources, factory]"
  using assms(2) unfolding root_xml_dict [OF assms(1)]
  by (auto simp: bind_def split: sum.splits)

lemma views_tag [simp]: "tag views = ''views''"
  and views_tab_bar_tag [simp]: "tag views_tab_bar = ''viewsTabBar''"
  and health_metrics_tag [simp]: "tag health_metrics = ''healthMetrics''"
  and icon_tag [simp]: "tag icon = ''icon''"
  and factory_tag [simp]: "tag factory = ''factory''"
  by (simp_all add: views_def views_tab_bar_def health_metrics_def icon_def factory_def)

lemma example_multibranch_keys:
  "map_of (example_multibranch entries) ''periodic-folder-spec'' = Some (PStr ''H/5 * * * *'')"
  "map_of (example_multibranch entries) ''periodic-folder-interval'' = Some (PStr ''300000'')"
  "map_of (example_multibranch entries) ''scm'' = Some (PList entries)"
  "map_of (example_multibranch entries) ''env-properties'' = None"
  "map_of (example_multibranch entries) ''timer-trigger'' = None"
  "map_of (example_multibranch entries) ''prune-dead-branches'' = None"
  "map_of (example_multibranch entries) ''days-to-keep'' = None"
  "map_of (example_multibranch entries) ''number-to-keep'' = None"
  by (simp_all add: example_multibranch_def)

lemma sources_block_no_entries:
  "map_of pd ''scm'' = Some (PList []) \<Longrightarrow>
   sources_block C (PDict pd) st =
     Inr (Element ''sources''
            [(''class'', ''jenkins.branch.MultiBranchProject$BranchSourceList''),
             (''plugin'', ''branch-api'')] PNone
            [Element ''data'' [] PNone [],
             Element ''owner''
               [(''class'',
                 ''org.jenkinsci.plugins.workflow.multibranch.WorkflowMultiBranchProject''),
                (''reference'', ''../..'')] PNone []],
          st)"
  by (simp add: sources_block_def py_iter_def)

lemma py_iter_list [simp]: "py_iter (PList xs) = Inr xs"
  by (simp add: py_iter_def)

text \<open>The loop body for an entry that passes the test of line 232 with a git mapping.\<close>

lemma scm_entry_git_dict:
  assumes "map_of e ''git'' = Some (PDict g)"
  shows "scm_entry C (PDict e) sources_data st =
     bind (generate_git_scm_xml C (Element ''jenkins.branch.BranchSource'' [] PNone []) (PDict g)
             (warn (''git_data = '' @ py_str (py_repr C) (PDict e)) st))
       (\<lambda>(branch_source, st).
          bind (case map_of g ''strategy'' of
                  None \<Rightarrow> Inr (generate_default_source_strategy branch_source, st)
                | Some strategy \<Rightarrow> generate_source_strategy C branch_source strategy st)
            (\<lambda>(branch_source, st). Inr (add_child sources_data branch_source, st)))"
  using assms
  by (cases "map_of g ''strategy''") (simp_all add: scm_entry_def is_dict_def Let_def)

lemma named_exception_fn:
  "named_exception =
     (\<lambda>name.
        Element ''jenkins.branch.NamedExceptionsBranchPropertyStrategy_-Named'' [] PNone
          [Element ''props'' [(''class'', ''java.util.Arrays$ArrayList'')] PNone
             [Element ''a'' [(''class'', ''jenkins.branch.BranchProperty-array'')] PNone
                [Element ''jenkins.branch.NoTriggerBranchProperty'' [] PNone []]],
           Element ''name'' [] name []])"
  by (simp add: fun_eq_iff named_exception_def no_trigger_array_def)

lemma generate_git_scm_xml_not_dict:
  "\<not> is_dict v \<Longrightarrow> generate_git_scm_xml C xml_parent v st = Inl AttributeError"
  by (cases v) (simp_all add: generate_git_scm_xml_def py_get_def is_dict_def)

lemma scm_entry_skipped:
  "\<not> recognised git_data \<Longrightarrow>
   scm_entry C git_data sources_data st =
     Inr (sources_data,
          warn ''We cannot process scm''
            (warn (''git_data = '' @ py_str (py_repr C) git_data) st))"
  by (auto simp: scm_entry_def recognised_def Let_def)

lemma recognised_dict: "recognised (PDict e) = (map_of e ''git'' \<noteq> None)"
  by (simp add: recognised_def is_dict_def)

lemma recognised_cases:
  "recognised git_data \<Longrightarrow> \<exists>e v. git_data = PDict e \<and> map_of e ''git'' = Some v"
  by (cases git_data) (auto simp: recognised_def is_dict_def)

lemma scm_entry_git_not_dict:
  assumes "map_of e ''git'' = Some v" and "\<not> is_dict v"
  shows "scm_entry C (PDict e) sources_data st = Inl AttributeError"
  using assms
  by (simp add: scm_entry_def is_dict_def Let_def generate_git_scm_xml_not_dict)

lemma scm_loop_append:
  "scm_loop C (xs @ ys) sources_data st =
     bind (scm_loop C xs sources_data st) (\<lambda>(sources_data, st). scm_loop C ys sources_data st)"
proof (induction xs arbitrary: sources_data st)
  case Nil
  show ?case by simp
next
  case (Cons x xs)
  show ?case
  proof (cases "scm_entry C x sources_data st")
    case (Inl err)
    then show ?thesis by simp
  next
    case (Inr r)
    then show ?thesis by (cases r) (simp add: Cons.IH)
  qed
qed

lemma scm_loop_failing_entry:
  assumes "x \<in> set xs"
    and "\<And>sources_data st. \<exists>err. scm_entry C x sources_data st = Inl err"
  shows "\<exists>err. scm_loop C xs sources_data st = Inl err"
  using assms(1)
proof (induction xs arbitrary: sources_data st)
  case Nil
  then show ?case by simp
next
  case (Cons y ys)
  show ?case
  proof (cases "scm_entry C y sources_data st")
    case (Inl err)
    then show ?thesis by simp
  next
    case (Inr r)
    with assms(2) [of sources_data st] have "y \<noteq> x"
      by auto
    with Cons.prems have "x \<in> set ys"
      by simp
    with Inr Cons.IH show ?thesis
      by (cases r) simp
  qed
qed

lemma sources_block_dict:
  "sources_block C (PDict pd) st =
     bind (case map_of pd ''scm'' of
             None \<Rightarrow> Inr (Element ''data'' [] PNone [], st)
           | Some scm \<Rightarrow>
               bind (py_iter scm) (\<lambda>entries.
                 scm_loop C entries (Element ''data'' [] PNone []) st))
       (\<lambda>(sources_data, st).
          Inr (Element ''sources''
                 [(''class'', ''jenkins.branch.MultiBranchProject$BranchSourceList''),
                  (''plugin'', ''branch-api'')] PNone
                 [sources_data,
                  Element ''owner''
                    [(''class'',
                      ''org.jenkinsci.plugins.workflow.multibranch.WorkflowMultiBranchProject''),
                     (''reference'', ''../..'')] PNone []],
               st))"
  by (cases "map_of pd ''scm''") (simp_all add: sources_block_def)

lemma generate_source_strategy_no_KeyError:
  "generate_source_strategy C xml_parent strategy st \<noteq> Inl (KeyError k)"
proof (cases strategy)
  case (PDict s)
  then show ?thesis
    by (cases "map_of s ''exceptions''")
       (auto simp: generate_source_strategy_dict py_iter_def bind_def
          split: pyval.splits sum.splits)
qed (simp_all add: generate_source_strategy_def py_in_def py_getitem_def)

lemma scm_entry_KeyError:
  assumes "scm_entry C git_data sources_data st = Inl (KeyError k)"
  shows "\<exists>e g. git_data = PDict e \<and> map_of e ''git'' = Some (PDict g) \<and>
     (k = ''url'' \<or> k = ''credentials-id'') \<and> map_of g k = None"
proof (cases "recognised git_data")
  case False
  with assms show ?thesis
    by (simp add: scm_entry_skipped)
next
  case True
  then obtain e v where e: "git_data = PDict e" "map_of e ''git'' = Some v"
    using recognised_cases by blast
  show ?thesis
  proof (cases "is_dict v")
    case False
    with assms e show ?thesis
      by (simp add: scm_entry_git_not_dict)
  next
    case True
    then obtain g where g: "v = PDict g"
      by (cases v) (simp_all add: is_dict_def)
    let ?st = "warn (''git_data = '' @ py_str (py_repr C) (PDict e)) st"
    let ?parent = "Element ''jenkins.branch.BranchSource'' [] PNone []"
    show ?thesis
    proof (cases "generate_git_scm_xml C ?parent (PDict g) ?st")
      case (Inl err)
      with assms e g have "generate_git_scm_xml C ?parent (PDict g) ?st = Inl (KeyError k)"
        by (simp add: scm_entry_git_dict)
      then have "(k = ''url'' \<or> k = ''credentials-id'') \<and> map_of g k = None"
        by (auto simp: generate_git_scm_xml_dict split: option.splits sum.splits)
      with e g show ?thesis
        by simp
    next
      case (Inr r)
      obtain branch_source st1 where r: "r = (branch_source, st1)"
        by (cases r)
      from assms e g Inr r generate_source_strategy_no_KeyError [of C branch_source _ st1 k]
      have False
        by (cases "map_of g ''strategy''")
           (auto simp: scm_entry_git_dict bind_def split: sum.splits)
      then show ?thesis ..
    qed
  qed
qed

lemma scm_loop_KeyError:
  assumes "scm_loop C xs sources_data st = Inl (KeyError k)"
  shows "\<exists>e g. PDict e \<in> set xs \<and> map_of e ''git'' = Some (PDict g) \<and>
     (k = ''url'' \<or> k = ''credentials-id'') \<and> map_of g k = None"
  using assms
proof (induction xs arbitrary: sources_data st)
  case Nil
  then show ?case by simp
next
  case (Cons x xs)
  show ?case
  proof (cases "scm_entry C x sources_data st")
    case (Inl err)
    with Cons.prems have "scm_entry C x sources_data st = Inl (KeyError k)"
      by simp
    from scm_entry_KeyError [OF this] show ?thesis
      by auto
  next
    case (Inr r)
    with Cons.prems have "scm_loop C xs (fst r) (snd r) = Inl (KeyError k)"
      by (cases r) simp
    from Cons.IH [OF this] show ?thesis
      by auto
  qed
qed

lemma root_xml_sources:
  assumes "map_of d ''multibranch'' = Some (PDict pd)"
    and "map_of pd ''periodic-folder-spec'' \<noteq> None"
    and "map_of pd ''periodic-folder-interval'' \<noteq> None"
  shows "\<exists>properties orphaned triggers.
     root_xml C (PDict d) st =
       bind (sources_block C (PDict pd) st) (\<lambda>(sources, st).
         Inr (Element ''org.jenkinsci.plugins.workflow.multibranch.WorkflowMultiBranchProject''
                [(''plugin'', ''workflow-multibranch'')] PNone
                [properties, views, views_tab_bar, health_metrics, icon, orphaned,
                 triggers, sources, factory],
              st))"
proof -
  obtain properties where pr: "properties_block (PDict pd) = Inr properties"
    by (simp add: properties_block_dict)
  obtain orphaned where orph: "orphaned_item_strategy C (PDict pd) = Inr orphaned"
    by (simp add: orphaned_item_strategy_dict)
  obtain triggers where trig: "triggers_block (PDict pd) = Inr triggers"
    using assms(2,3) by (auto simp: triggers_block_dict)
  have "root_xml C (PDict d) st =
       bind (sources_block C (PDict pd) st) (\<lambda>(sources, st).
         Inr (Element ''org.jenkinsci.plugins.workflow.multibranch.WorkflowMultiBranchProject''
                [(''plugin'', ''workflow-multibranch'')] PNone
                [properties, views, views_tab_bar, health_metrics, icon, orphaned,
                 triggers, sources, factory],
              st))"
    by (simp add: root_xml_dict [OF assms(1)] pr orph trig)
  then show ?thesis
    by blast
qed

lemma root_xml_loop_error:
  assumes "map_of d ''multibranch'' = Some (PDict pd)"
    and "map_of pd ''periodic-folder-spec'' \<noteq> None"
    and "map_of pd ''periodic-folder-interval'' \<noteq> None"
    and "map_of pd ''scm'' = Some (PList xs)"
    and "scm_loop C xs (Element ''data'' [] PNone []) st = Inl err"
  shows "root_xml C (PDict d) st = Inl err"
proof -
  from assms(4,5) have "sources_block C (PDict pd) st = Inl err"
    by (simp add: sources_block_dict)
  with root_xml_sources [OF assms(1-3), of C st] show ?thesis
    by auto
qed

lemma root_xml_error_cases:
  assumes "map_of d ''multibranch'' = Some (PDict pd)"
    and "root_xml C (PDict d) st = Inl err"
  shows "triggers_block (PDict pd) = Inl err \<or> sources_block C (PDict pd) st = Inl err"
  using assms(2) unfolding root_xml_dict [OF assms(1)]
  by (auto simp: properties_block_dict orphaned_item_strategy_dict bind_def split: sum.splits)

lemma outcome_simps [simp]:
  "outcome (Inl err) = Inl err"
  "outcome (Inr (x, st)) = Inr (x, uuid_calls st)"
  by (simp_all add: outcome_def)

lemma outcome_bind:
  assumes "outcome m = outcome m'"
    and "\<And>x st st'. uuid_calls st = uuid_calls st' \<Longrightarrow> outcome (f (x, st)) = outcome (f' (x, st'))"
  shows "outcome (bind m f) = outcome (bind m' f')"
proof (cases m)
  case (Inl err)
  with assms(1) show ?thesis
    by (cases m') (auto simp: outcome_def)
next
  case (Inr r)
  with assms(1) obtain r' where m': "m' = Inr r'" and "fst r' = fst r"
    and "uuid_calls (snd r') = uuid_calls (snd r)"
    by (cases m') (auto simp: outcome_def split: prod.splits)
  with Inr assms(2) [of "snd r" "snd r'" "fst r"] show ?thesis
    by (cases r; cases r') simp
qed

lemma generate_git_scm_xml_outcome:
  assumes "uuid_calls st = uuid_calls st'"
  shows "outcome (generate_git_scm_xml C xml_parent v st) =
     outcome (generate_git_scm_xml C xml_parent v st')"
proof (cases v)
  case (PDict g)
  with assms show ?thesis
    by (simp add: generate_git_scm_xml_dict split: option.split sum.split)
qed (simp_all add: generate_git_scm_xml_not_dict is_dict_def)

lemma generate_source_strategy_outcome:
  assumes "uuid_calls st = uuid_calls st'"
  shows "outcome (generate_source_strategy C xml_parent v st) =
     outcome (generate_source_strategy C xml_parent v st')"
proof (cases v)
  case (PDict s)
  show ?thesis
  proof (cases "map_of s ''exceptions''")
    case None
    with assms PDict show ?thesis
      by (simp add: generate_source_strategy_dict warn_def)
  next
    case (Some exceptions)
    with assms PDict show ?thesis
      by (cases "py_iter exceptions") (simp_all add: generate_source_strategy_dict warn_def)
  qed
next
  case (PStr s)
  with assms show ?thesis
    by (simp add: generate_source_strategy_def py_in_def py_getitem_def warn_def)
next
  case (PList xs)
  with assms show ?thesis
    by (simp add: generate_source_strategy_def py_in_def py_getitem_def warn_def)
qed (simp_all add: generate_source_strategy_def py_in_def)

lemma scm_entry_outcome:
  assumes "uuid_calls st = uuid_calls st'"
  shows "outcome (scm_entry C git_data sources_data st) =
     outcome (scm_entry C git_data sources_data st')"
proof (cases "recognised git_data")
  case False
  with assms show ?thesis
    by (simp add: scm_entry_skipped warn_def)
next
  case True
  then obtain e v where e: "git_data = PDict e" "map_of e ''git'' = Some v"
    using recognised_cases by blast
  show ?thesis
  proof (cases "is_dict v")
    case False
    with e show ?thesis
      by (simp add: scm_entry_git_not_dict)
  next
    case True
    then obtain g where g: "v = PDict g"
      by (cases v) (simp_all add: is_dict_def)
    have st: "uuid_calls (warn (''git_data = '' @ py_str (py_repr C) (PDict e)) st) =
        uuid_calls (warn (''git_data = '' @ py_str (py_repr C) (PDict e)) st')"
      using assms by (simp add: warn_def)
    have "outcome (scm_entry C (PDict e) sources_data st) =
        outcome (scm_entry C (PDict e) sources_data st')"
      unfolding scm_entry_git_dict [OF e(2) [unfolded g]]
    proof (rule outcome_bind)
      show "outcome (generate_git_scm_xml C (Element ''jenkins.branch.BranchSource'' [] PNone [])
            (PDict g) (warn (''git_data = '' @ py_str (py_repr C) (PDict e)) st)) =
          outcome (generate_git_scm_xml C (Element ''jenkins.branch.BranchSource'' [] PNone [])
            (PDict g) (warn (''git_data = '' @ py_str (py_repr C) (PDict e)) st'))"
        by (rule generate_git_scm_xml_outcome [OF st])
    next
      fix branch_source and s s' :: state
      assume s: "uuid_calls s = uuid_calls s'"
      show "outcome (case (branch_source, s) of (branch_source, st) \<Rightarrow>
            bind (case map_of g ''strategy'' of
                    None \<Rightarrow> Inr (generate_default_source_strategy branch_source, st)
                  | Some strategy \<Rightarrow> generate_source_strategy C branch_source strategy st)
              (\<lambda>(branch_source, st). Inr (add_child sources_data branch_source, st))) =
          outcome (case (branch_source, s') of (branch_source, st) \<Rightarrow>
            bind (case map_of g ''strategy'' of
                    None \<Rightarrow> Inr (generate_default_source_strategy branch_source, st)
                  | Some strategy \<Rightarrow> generate_source_strategy C branch_source strategy st)
              (\<lambda>(branch_source, st). Inr (add_child sources_data branch_source, st)))"
      proof (cases "map_of g ''strategy''")
        case None
        with s show ?thesis by simp
      next
        case (Some strategy)
        have "outcome (bind (generate_source_strategy C branch_source strategy s)
              (\<lambda>(branch_source, st). Inr (add_child sources_data branch_source, st))) =
            outcome (bind (generate_source_strategy C branch_source strategy s')
              (\<lambda>(branch_source, st). Inr (add_child sources_data branch_source, st)))"
          by (rule outcome_bind [OF generate_source_strategy_outcome [OF s]]) simp
        with Some show ?thesis by simp
      qed
    qed
    with e show ?thesis
      by simp
  qed
qed

lemma scm_loop_outcome:
  assumes "uuid_calls st = uuid_calls st'"
  shows "outcome (scm_loop C xs sources_data st) = outcome (scm_loop C xs sources_data st')"
  using assms
proof (induction xs arbitrary: sources_data st st')
  case Nil
  then show ?case by simp
next
  case (Cons x xs)
  show ?case
    unfolding scm_loop.simps
  proof (rule outcome_bind [OF scm_entry_outcome [OF Cons.prems]])
    fix sources_data' and s s' :: state
    assume "uuid_calls s = uuid_calls s'"
    from Cons.IH [OF this, of sources_data']
    show "outcome (case (sources_data', s) of
            (sources_data, st) \<Rightarrow> scm_loop C xs sources_data st) =
        outcome (case (sources_data', s') of
            (sources_data, st) \<Rightarrow> scm_loop C xs sources_data st)"
      by simp
  qed
qed

lemma scm_loop_filter:
  "outcome (scm_loop C (filter recognised xs) sources_data st) =
   outcome (scm_loop C xs sources_data st)"
proof (induction xs arbitrary: sources_data st)
  case Nil
  show ?case by simp
next
  case (Cons x xs)
  show ?case
  proof (cases "recognised x")
    case True
    have "outcome (bind (scm_entry C x sources_data st)
            (\<lambda>(sources_data, st). scm_loop C (filter recognised xs) sources_data st)) =
        outcome (bind (scm_entry C x sources_data st)
            (\<lambda>(sources_data, st). scm_loop C xs sources_data st))"
    proof (rule outcome_bind [OF refl])
      fix sources_data' and s s' :: state
      assume "uuid_calls s = uuid_calls s'"
      from scm_loop_outcome [OF this, of C xs sources_data']
      show "outcome (case (sources_data', s) of
              (sources_data, st) \<Rightarrow> scm_loop C (filter recognised xs) sources_data st) =
          outcome (case (sources_data', s') of
              (sources_data, st) \<Rightarrow> scm_loop C xs sources_data st)"
        by (simp add: Cons.IH)
    qed
    with True show ?thesis
      by simp
  next
    case False
    have "outcome (scm_loop C xs sources_data
          (warn ''We cannot process scm''
            (warn (''git_data = '' @ py_str (py_repr C) x) st))) =
        outcome (scm_loop C xs sources_data st)"
      by (rule scm_loop_outcome) (simp add: warn_def)
    with False show ?thesis
      by (simp add: scm_entry_skipped Cons.IH)
  qed
qed

lemma scm_loop_all_skipped:
  "\<forall>x\<in>set xs. \<not> recognised x \<Longrightarrow>
   scm_loop C xs sources_data st =
     Inr (sources_data, st\<lparr>warnings := warnings st @ concat (map (skip_notices C) xs)\<rparr>)"
  by (induction xs arbitrary: st) (simp_all add: scm_entry_skipped warn_def skip_notices_def)

lemma recognised_iff:
  "recognised git_data = (\<exists>e. git_data = PDict e \<and> map_of e ''git'' \<noteq> None)"
  by (cases git_data) (auto simp: recognised_def is_dict_def)

lemma scm_entry_skipped_notices:
  "\<not> recognised git_data \<Longrightarrow>
   scm_entry C git_data sources_data st =
     Inr (sources_data, st\<lparr>warnings := warnings st @ skip_notices C git_data\<rparr>)"
  by (simp add: scm_entry_skipped warn_def skip_notices_def)

lemma root_xml_outcome_filtered:
  assumes d: "map_of d ''multibranch'' = Some (PDict pd)"
    and d': "map_of d' ''multibranch'' = Some (PDict pd')"
    and scm: "map_of pd ''scm'' = Some (PList xs)"
    and scm': "map_of pd' ''scm'' = Some (PList (filter recognised xs))"
    and same: "\<forall>k. k \<noteq> ''scm'' \<longrightarrow> map_of pd' k = map_of pd k"
  shows "outcome (root_xml C (PDict d') st) = outcome (root_xml C (PDict d) st)"
proof -
  have keys:
    "map_of pd' ''env-properties'' = map_of pd ''env-properties''"
    "map_of pd' ''prune-dead-branches'' = map_of pd ''prune-dead-branches''"
    "map_of pd' ''days-to-keep'' = map_of pd ''days-to-keep''"
    "map_of pd' ''number-to-keep'' = map_of pd ''number-to-keep''"
    "map_of pd' ''timer-trigger'' = map_of pd ''timer-trigger''"
    "map_of pd' ''periodic-folder-spec'' = map_of pd ''periodic-folder-spec''"
    "map_of pd' ''periodic-folder-interval'' = map_of pd ''periodic-folder-interval''"
    using same by simp_all
  have pr: "properties_block (PDict pd') = properties_block (PDict pd)"
    by (simp only: properties_block_dict keys)
  have orph: "orphaned_item_strategy C (PDict pd') = orphaned_item_strategy C (PDict pd)"
    by (simp only: orphaned_item_strategy_dict keys)
  have trig: "triggers_block (PDict pd') = triggers_block (PDict pd)"
    by (simp only: triggers_block_dict keys)
  have src: "outcome (sources_block C (PDict pd') st) = outcome (sources_block C (PDict pd) st)"
    unfolding sources_block_dict scm scm' option.case py_iter_list bind_Inr
    by (rule outcome_bind [OF scm_loop_filter]) simp
  show ?thesis
  proof (cases "properties_block (PDict pd)")
    case (Inl err)
    then show ?thesis
      by (simp add: root_xml_dict [OF d] root_xml_dict [OF d'] pr)
  next
    case p: (Inr properties)
    show ?thesis
    proof (cases "orphaned_item_strategy C (PDict pd)")
      case (Inl err)
      with p show ?thesis
        by (simp add: root_xml_dict [OF d] root_xml_dict [OF d'] pr orph)
    next
      case o: (Inr orphaned)
      show ?thesis
      proof (cases "triggers_block (PDict pd)")
        case (Inl err)
        with p o show ?thesis
          by (simp add: root_xml_dict [OF d] root_xml_dict [OF d'] pr orph trig)
      next
        case t: (Inr triggers)
        let ?finish = "\<lambda>(sources, st).
          Inr (Element ''org.jenkinsci.plugins.workflow.multibranch.WorkflowMultiBranchProject''
                 [(''plugin'', ''workflow-multibranch'')] PNone
                 [properties, views, views_tab_bar, health_metrics, icon, orphaned,
                  triggers, sources, factory],
               st)"
        have "outcome (bind (sources_block C (PDict pd') st) ?finish) =
            outcome (bind (sources_block C (PDict pd) st) ?finish)"
          by (rule outcome_bind [OF src]) simp
        with p o t show ?thesis
          by (simp add: root_xml_dict [OF d] root_xml_dict [OF d'] pr orph trig)
      qed
    qed
  qed
qed

lemma example_git_keys:
  "map_of example_git ''url'' = Some (PStr ''https://x/y.git'')"
  "map_of example_git ''credentials-id'' = Some (PStr ''c1'')"
  "map_of example_git ''excludes'' = None"
  "map_of example_git ''includes'' = None"
  "map_of example_git ''ignore-on-push-notifications'' = None"
  "map_of example_git ''strategy'' = None"
  by (simp_all add: example_git_def)

lemma example_mixed_build:
  "\<exists>document st'.
     root_xml example_collab
      (PDict [(''multibranch'',
         PDict (example_multibranch
           [PStr ''svn'', PDict [(''git'', PDict example_git)], PDict [(''hg'', PNone)]]))])
      fresh = Inr (document, st')"
proof -
  let ?xs = "[PStr ''svn'', PDict [(''git'', PDict example_git)], PDict [(''hg'', PNone)]]"
  have m: "map_of [(''multibranch'', PDict (example_multibranch ?xs))] ''multibranch'' =
      Some (PDict (example_multibranch ?xs))"
    by simp
  have r: "\<not> recognised (PStr ''svn'')" "\<not> recognised (PDict [(''hg'', PNone)])"
    by (simp_all add: recognised_def is_dict_def)
  have g: "map_of [(''git'', PDict example_git)] ''git'' = Some (PDict example_git)"
    by simp
  have "\<exists>sources_data st'.
      scm_loop example_collab ?xs (Element ''data'' [] PNone []) fresh = Inr (sources_data, st')"
    by (simp add: scm_entry_skipped r scm_entry_git_dict [OF g] generate_git_scm_xml_dict
          example_git_keys example_git_made generate_default_source_strategy_def)
  then obtain sources_data st' where
    "scm_loop example_collab ?xs (Element ''data'' [] PNone []) fresh = Inr (sources_data, st')"
    by blast
  then have "\<exists>sources. sources_block example_collab (PDict (example_multibranch ?xs)) fresh =
      Inr (sources, st')"
    by (simp add: sources_block_dict example_multibranch_keys)
  with root_xml_sources [OF m, of example_collab fresh] show ?thesis
    by (auto simp: example_multibranch_keys)
qed

lemma occurs_in_append [simp]:
  "occurs_in name (xs @ ys) = (occurs_in name xs \<or> occurs_in name ys)"
  by (induction xs) simp_all

lemma occurs_children: "occurs name x = (tag x = name \<or> occurs_in name (children x))"
  by (cases x) simp

lemma occurs_add_child [simp]:
  "occurs name (add_child parent child) = (occurs name parent \<or> occurs name child)"
  by (cases parent) auto

lemma occurs_in_named_exceptions [simp]:
  "\<not> occurs_in ''temp-git'' (map named_exception items)"
  by (induction items) (simp_all add: named_exception_def no_trigger_array_def)

lemma fixed_blocks_without_scratch [simp]:
  "\<not> occurs ''temp-git'' root_element"
  "\<not> occurs ''temp-git'' folder_credentials_provider"
  "\<not> occurs ''temp-git'' views"
  "\<not> occurs ''temp-git'' views_tab_bar"
  "\<not> occurs ''temp-git'' health_metrics"
  "\<not> occurs ''temp-git'' icon"
  "\<not> occurs ''temp-git'' factory"
  "\<not> occurs ''temp-git'' no_trigger_array"
  by (simp_all add: root_element_def folder_credentials_provider_def views_def
        views_tab_bar_def health_metrics_def icon_def factory_def no_trigger_array_def)

lemma properties_block_without_scratch:
  "properties_block (PDict pd) = Inr properties \<Longrightarrow> \<not> occurs ''temp-git'' properties"
  by (auto simp: properties_block_dict split: option.splits)

lemma orphaned_item_strategy_without_scratch:
  "orphaned_item_strategy C (PDict pd) = Inr orphaned \<Longrightarrow> \<not> occurs ''temp-git'' orphaned"
  by (auto simp: orphaned_item_strategy_dict split: option.splits)

lemma triggers_block_without_scratch:
  "triggers_block (PDict pd) = Inr triggers \<Longrightarrow> \<not> occurs ''temp-git'' triggers"
  by (auto simp: triggers_block_dict split: option.splits)

lemma orphaned_item_strategy_not_dict:
  "\<not> is_dict v \<Longrightarrow> \<exists>err. orphaned_item_strategy C v = Inl err"
  by (cases v)
     (auto simp: orphaned_item_strategy_def is_dict_def py_in_def py_get_def bind_def
        split: sum.splits)

lemma generate_source_strategy_without_scratch:
  assumes "generate_source_strategy C xml_parent v st = Inr (r, st')"
    and "\<not> occurs ''temp-git'' xml_parent"
  shows "\<not> occurs ''temp-git'' r"
proof -
  have simple: "\<not> occurs ''temp-git''
      (add_child xml_parent
         (Element ''strategy''
            [(''class'', ''jenkins.branch.DefaultBranchPropertyStrategy'')] PNone
            [Element ''properties''
               [(''class'', ''java.util.Arrays$ArrayList'')] PNone [no_trigger_array]]))"
    using assms(2) by simp
  show ?thesis
  proof (cases v)
    case (PDict s)
    show ?thesis
    proof (cases "map_of s ''exceptions''")
      case None
      with assms PDict show ?thesis
        by (auto simp: generate_source_strategy_dict)
    next
      case (Some exceptions)
      with assms PDict show ?thesis
        by (cases "py_iter exceptions") (auto simp: generate_source_strategy_dict)
    qed
  next
    case (PStr s)
    with assms(1) simple show ?thesis
      by (auto simp: generate_source_strategy_def py_in_def py_getitem_def split: if_splits)
  next
    case (PList xs)
    with assms(1) simple show ?thesis
      by (auto simp: generate_source_strategy_def py_in_def py_getitem_def split: if_splits)
  qed (insert assms(1), simp_all add: generate_source_strategy_def py_in_def)
qed

lemma spliced_cases:
  "spliced made = [] \<or>
   (\<exists>temp_xml_scm temp_extensions.
      find_tag ''scm'' (Element ''temp-git'' [] PNone made) = Some temp_xml_scm \<and>
      find_tag ''extensions'' temp_xml_scm = Some temp_extensions \<and>
      spliced made = [temp_extensions])"
  by (auto simp: spliced_explicit split: option.splits)

lemma find_tag_tag: "find_tag name x = Some c \<Longrightarrow> tag c = name"
  by (auto simp: find_tag_def dest: find_Some_iff [THEN iffD1])


lemma generate_git_scm_xml_without_scratch:
  assumes clean: "\<And>data made temp_xml_scm temp_extensions.
      git C data = Inr made \<Longrightarrow>
      find_tag ''scm'' (Element ''temp-git'' [] PNone made) = Some temp_xml_scm \<Longrightarrow>
      find_tag ''extensions'' temp_xml_scm = Some temp_extensions \<Longrightarrow>
      \<not> occurs ''temp-git'' temp_extensions"
    and result: "generate_git_scm_xml C xml_parent v st = Inr (r, st')"
    and parent: "\<not> occurs ''temp-git'' xml_parent"
  shows "\<not> occurs ''temp-git'' r"
proof (cases v)
  case (PDict g)
  from result PDict obtain url credentials_id made where
    made: "git C (PDict g) = Inr made"
    and r: "r = add_child xml_parent
        (Element ''source''
           [(''class'', ''jenkins.plugins.git.GitSCMSource''), (''plugin'', ''git'')] PNone
           ((case map_of g ''excludes'' of
               None \<Rightarrow> [Element ''excludes'' [] PNone []]
             | Some excludes \<Rightarrow> []) @
            [Element ''id'' [] (PStr (uuid4 C (uuid_calls st))) [],
             Element ''remote'' [] url [],
             Element ''credentialsId'' [] credentials_id [],
             Element ''ignoreOnPushNotifications'' []
               (PStr (lower (py_str (py_repr C)
                  (case map_of g ''ignore-on-push-notifications'' of
                     None \<Rightarrow> PBool True
                   | Some v \<Rightarrow> v)))) [],
             Element ''includes'' []
               (case map_of g ''includes'' of None \<Rightarrow> PStr ''*'' | Some v \<Rightarrow> v) []] @
            (case map_of g ''excludes'' of
               None \<Rightarrow> []
             | Some excludes \<Rightarrow> [Element ''excludes'' [] excludes []]) @
            spliced made))"
    by (auto simp: generate_git_scm_xml_dict split: option.splits sum.splits)
  have "\<not> occurs_in ''temp-git'' (spliced made)"
    using spliced_cases [of made] clean [OF made] by auto
  with parent show ?thesis
    unfolding r by (cases "map_of g ''excludes''") simp_all
qed (insert result, simp_all add: generate_git_scm_xml_not_dict is_dict_def)

lemma scm_entry_without_scratch:
  assumes clean: "\<And>data made temp_xml_scm temp_extensions.
      git C data = Inr made \<Longrightarrow>
      find_tag ''scm'' (Element ''temp-git'' [] PNone made) = Some temp_xml_scm \<Longrightarrow>
      find_tag ''extensions'' temp_xml_scm = Some temp_extensions \<Longrightarrow>
      \<not> occurs ''temp-git'' temp_extensions"
    and result: "scm_entry C git_data sources_data st = Inr (r, st')"
    and parent: "\<not> occurs ''temp-git'' sources_data"
  shows "\<not> occurs ''temp-git'' r"
proof (cases "recognised git_data")
  case False
  with result parent show ?thesis
    by (simp add: scm_entry_skipped)
next
  case True
  then obtain e v where e: "git_data = PDict e" "map_of e ''git'' = Some v"
    using recognised_cases by blast
  show ?thesis
  proof (cases "is_dict v")
    case False
    with result e show ?thesis
      by (simp add: scm_entry_git_not_dict)
  next
    case True
    then obtain g where g: "v = PDict g"
      by (cases v) (simp_all add: is_dict_def)
    let ?st = "warn (''git_data = '' @ py_str (py_repr C) (PDict e)) st"
    let ?parent = "Element ''jenkins.branch.BranchSource'' [] PNone []"
    from result e g obtain branch_source st1 branch_source' where
      made: "generate_git_scm_xml C ?parent (PDict g) ?st = Inr (branch_source, st1)"
      and strategy: "(case map_of g ''strategy'' of
             None \<Rightarrow> Inr (generate_default_source_strategy branch_source, st1)
           | Some strategy \<Rightarrow> generate_source_strategy C branch_source strategy st1) =
          Inr (branch_source', st')"
      and r: "r = add_child sources_data branch_source'"
      by (auto simp: scm_entry_git_dict bind_def split: sum.splits)
    have "\<not> occurs ''temp-git'' branch_source"
      by (rule generate_git_scm_xml_without_scratch [OF clean made]) simp_all
    with strategy have "\<not> occurs ''temp-git'' branch_source'"
      by (cases "map_of g ''strategy''")
         (auto simp: generate_default_source_strategy_def
            dest: generate_source_strategy_without_scratch)
    with parent r show ?thesis
      by simp
  qed
qed

lemma scm_loop_without_scratch:
  assumes clean: "\<And>data made temp_xml_scm temp_extensions.
      git C data = Inr made \<Longrightarrow>
      find_tag ''scm'' (Element ''temp-git'' [] PNone made) = Some temp_xml_scm \<Longrightarrow>
      find_tag ''extensions'' temp_xml_scm = Some temp_extensions \<Longrightarrow>
      \<not> occurs ''temp-git'' temp_extensions"
  shows "scm_loop C xs sources_data st = Inr (r, st') \<Longrightarrow>
    \<not> occurs ''temp-git'' sources_data \<Longrightarrow> \<not> occurs ''temp-git'' r"
proof (induction xs arbitrary: sources_data st)
  case Nil
  then show ?case by simp
next
  case (Cons x xs)
  from Cons.prems(1) obtain sources_data1 st1 where
    entry: "scm_entry C x sources_data st = Inr (sources_data1, st1)"
    and rest: "scm_loop C xs sources_data1 st1 = Inr (r, st')"
    by (auto simp: bind_def split: sum.splits)
  from scm_entry_without_scratch [OF clean entry Cons.prems(2)]
  have "\<not> occurs ''temp-git'' sources_data1"
    by simp
  with rest show ?case
    by (rule Cons.IH)
qed

lemma sources_block_without_scratch:
  assumes clean: "\<And>data made temp_xml_scm temp_extensions.
      git C data = Inr made \<Longrightarrow>
      find_tag ''scm'' (Element ''temp-git'' [] PNone made) = Some temp_xml_scm \<Longrightarrow>
      find_tag ''extensions'' temp_xml_scm = Some temp_extensions \<Longrightarrow>
      \<not> occurs ''temp-git'' temp_extensions"
    and result: "sources_block C (PDict pd) st = Inr (sources, st')"
  shows "\<not> occurs ''temp-git'' sources"
proof -
  from result obtain sources_data where
    data: "(case map_of pd ''scm'' of
             None \<Rightarrow> Inr (Element ''data'' [] PNone [], st)
           | Some scm \<Rightarrow>
               bind (py_iter scm) (\<lambda>entries.
                 scm_loop C entries (Element ''data'' [] PNone []) st)) =
        Inr (sources_data, st')"
    and sources: "sources =
        Element ''sources''
          [(''class'', ''jenkins.branch.MultiBranchProject$BranchSourceList''),
           (''plugin'', ''branch-api'')] PNone
          [sources_data,
           Element ''owner''
             [(''class'',
               ''org.jenkinsci.plugins.workflow.multibranch.WorkflowMultiBranchProject''),
              (''reference'', ''../..'')] PNone []]"
    unfolding sources_block_dict by (auto simp: bind_def split: sum.splits)
  have "\<not> occurs ''temp-git'' sources_data"
  proof (cases "map_of pd ''scm''")
    case None
    with data show ?thesis by auto
  next
    case (Some scm)
    with data obtain entries where
      "scm_loop C entries (Element ''data'' [] PNone []) st = Inr (sources_data, st')"
      by (auto simp: bind_def split: sum.splits)
    from scm_loop_without_scratch [OF clean this] show ?thesis
      by simp
  qed
  with sources show ?thesis
    by simp
qed

lemma root_xml_success_cases:
  assumes "root_xml C data st = Inr (document, st')"
  shows "document = root_element \<or>
     (\<exists>d pd. data = PDict d \<and> map_of d ''multibranch'' = Some (PDict pd))"
proof (cases "py_in ''multibranch'' data")
  case (Inl err)
  with assms show ?thesis
    by (simp add: root_xml_def)
next
  case (Inr has_multibranch)
  show ?thesis
  proof (cases has_multibranch)
    case False
    with assms Inr show ?thesis
      by (simp add: root_xml_def)
  next
    case True
    with assms Inr obtain project_def where
      project_def: "py_getitem data ''multibranch'' = Inr project_def"
      and orphaned: "\<exists>orphaned. orphaned_item_strategy C project_def = Inr orphaned"
      by (auto simp: root_xml_def bind_def split: sum.splits)
    from project_def obtain d where d: "data = PDict d"
      "map_of d ''multibranch'' = Some project_def"
      by (cases data) (auto simp: py_getitem_def split: option.splits)
    have "is_dict project_def"
    proof (rule ccontr)
      assume "\<not> is_dict project_def"
      from orphaned_item_strategy_not_dict [OF this, of C] orphaned show False
        by auto
    qed
    then obtain pd where "project_def = PDict pd"
      by (cases project_def) (simp_all add: is_dict_def)
    with d show ?thesis
      by simp
  qed
qed

lemma children_add_child [simp]: "children (add_child parent child) = children parent @ [child]"
  by (simp add: add_child_def)

lemma generate_git_scm_xml_scratch_removed:
  assumes "generate_git_scm_xml C xml_parent v st = Inr (r, st')"
  shows "find_tag ''temp-git'' (last (children r)) = None"
proof (cases v)
  case (PDict g)
  from assms PDict obtain url credentials_id made where
    r: "r = add_child xml_parent
        (Element ''source''
           [(''class'', ''jenkins.plugins.git.GitSCMSource''), (''plugin'', ''git'')] PNone
           ((case map_of g ''excludes'' of
               None \<Rightarrow> [Element ''excludes'' [] PNone []]
             | Some excludes \<Rightarrow> []) @
            [Element ''id'' [] (PStr (uuid4 C (uuid_calls st))) [],
             Element ''remote'' [] url [],
             Element ''credentialsId'' [] credentials_id [],
             Element ''ignoreOnPushNotifications'' []
               (PStr (lower (py_str (py_repr C)
                  (case map_of g ''ignore-on-push-notifications'' of
                     None \<Rightarrow> PBool True
                   | Some v \<Rightarrow> v)))) [],
             Element ''includes'' []
               (case map_of g ''includes'' of None \<Rightarrow> PStr ''*'' | Some v \<Rightarrow> v) []] @
            (case map_of g ''excludes'' of
               None \<Rightarrow> []
             | Some excludes \<Rightarrow> [Element ''excludes'' [] excludes []]) @
            spliced made))"
    by (auto simp: generate_git_scm_xml_dict split: option.splits sum.splits)
  have "\<forall>c\<in>set (spliced made). tag c = ''extensions''"
    using spliced_cases [of made] by (auto dest: find_tag_tag)
  then have "\<forall>c\<in>set (spliced made). tag c \<noteq> ''temp-git''"
    by auto
  then show ?thesis
    unfolding r by (cases "map_of g ''excludes''") (simp_all add: find_None_iff)
qed (insert assms, simp_all add: generate_git_scm_xml_not_dict is_dict_def)

section \<open>The short circuit\<close>

text \<open>
  C1. A configuration record without the key \<open>multibranch\<close> gives exactly the bare root
  element: the project tag, the attribute \<open>plugin = workflow-multibranch\<close>, no text,
  no children. Nothing is logged and no identifier is drawn.
\<close>

theorem root_xml_without_multibranch:
  "map_of d ''multibranch'' = None \<Longrightarrow>
   root_xml C (PDict d) st =
     Inr (Element ''org.jenkinsci.plugins.workflow.multibranch.WorkflowMultiBranchProject''
            [(''plugin'', ''workflow-multibranch'')] PNone [], st)"
  by (simp add: root_xml_def root_element_def)

theorem root_xml_without_multibranch_witness:
  "map_of [(''name'', PStr ''job'')] ''multibranch'' = None \<and>
   root_xml example_collab (PDict [(''name'', PStr ''job'')]) fresh =
     Inr (Element ''org.jenkinsci.plugins.workflow.multibranch.WorkflowMultiBranchProject''
            [(''plugin'', ''workflow-multibranch'')] PNone [], fresh)"
  using root_xml_without_multibranch [of "[(''name'', PStr ''job'')]" example_collab fresh]
  by simp


section \<open>The children of a git source\<close>





section \<open>Splicing the extensions\<close>





section \<open>The orphaned-item strategy\<close>

text \<open>
  C7, as the code has it. In every document built for a \<open>multibranch\<close> mapping the
  orphaned-item strategy block has no \<open>pruneDeadBranches\<close> child when
  \<open>prune-dead-branches\<close> is not in the mapping; when the key is there, the child's text
  is the lowercase \<open>str\<close> of the value, whatever the value is (the default \<open>False\<close>
  of the lookup is never used, since the lookup runs only when the key is present).
  \<open>daysToKeep\<close> and \<open>numToKeep\<close> are always there, with \<open>-1\<close> for an absent key
  and the value as it is otherwise.
\<close>

theorem orphaned_item_strategy_children:
  assumes "map_of d ''multibranch'' = Some (PDict pd)"
    and "root_xml C (PDict d) st = Inr (document, st')"
  shows "find_tag ''orphanedItemStrategy'' document =
     Some (Element ''orphanedItemStrategy''
            [(''class'', ''com.cloudbees.hudson.plugins.folder.computed.DefaultOrphanedItemStrategy''),
             (''plugin'', ''cloudbees-folder'')] PNone
            ((case map_of pd ''prune-dead-branches'' of
                None \<Rightarrow> []
              | Some v \<Rightarrow>
                  [Element ''pruneDeadBranches'' [] (PStr (lower (py_str (py_repr C) v))) []]) @
             [Element ''daysToKeep'' []
                (case map_of pd ''days-to-keep'' of None \<Rightarrow> PStr ''-1'' | Some v \<Rightarrow> v) [],
              Element ''numToKeep'' []
                (case map_of pd ''number-to-keep'' of None \<Rightarrow> PStr ''-1'' | Some v \<Rightarrow> v) []]))"
proof -
  from root_xml_document [OF assms] obtain properties orphaned triggers sources where
    p: "properties_block (PDict pd) = Inr properties"
    and o: "orphaned_item_strategy C (PDict pd) = Inr orphaned"
    and t: "triggers_block (PDict pd) = Inr triggers"
    and s: "sources_block C (PDict pd) st = Inr (sources, st')"
    and doc: "document =
       Element ''org.jenkinsci.plugins.workflow.multibranch.WorkflowMultiBranchProject''
         [(''plugin'', ''workflow-multibranch'')] PNone
         [properties, views, views_tab_bar, health_metrics, icon, orphaned,
          triggers, sources, factory]"
    by blast
  from p have "tag properties = ''properties''"
    by (auto simp: properties_block_dict)
  moreover from o have "tag orphaned = ''orphanedItemStrategy''"
    by (auto simp: orphaned_item_strategy_dict)
  ultimately have "find_tag ''orphanedItemStrategy'' document = Some orphaned"
    by (simp add: doc)
  with o show ?thesis
    by (simp add: orphaned_item_strategy_dict)
qed

theorem orphaned_item_strategy_children_witness:
  "map_of [(''multibranch'',
        PDict ((''prune-dead-branches'', PBool True) # (''days-to-keep'', PInt 7) #
               example_multibranch []))] ''multibranch'' =
     Some (PDict ((''prune-dead-branches'', PBool True) # (''days-to-keep'', PInt 7) #
               example_multibranch [])) \<and>
   find_tag ''orphanedItemStrategy''
     (fst (projr (root_xml example_collab
        (PDict [(''multibranch'',
           PDict ((''prune-dead-branches'', PBool True) # (''days-to-keep'', PInt 7) #
                  example_multibranch []))]) fresh))) =
     Some (Element ''orphanedItemStrategy''
            [(''class'', ''com.cloudbees.hudson.plugins.folder.computed.DefaultOrphanedItemStrategy''),
             (''plugin'', ''cloudbees-folder'')] PNone
            [Element ''pruneDeadBranches'' [] (PStr ''true'') [],
             Element ''daysToKeep'' [] (PInt 7) [],
             Element ''numToKeep'' [] (PStr ''-1'') []])"
proof -
  let ?pd = "(''prune-dead-branches'', PBool True) # (''days-to-keep'', PInt 7) #
               example_multibranch []"
  let ?d = "[(''multibranch'', PDict ?pd)]"
  have m: "map_of ?d ''multibranch'' = Some (PDict ?pd)"
    by simp
  have "\<exists>document. root_xml example_collab (PDict ?d) fresh = Inr (document, fresh)"
    by (simp add: root_xml_dict [OF m] properties_block_dict orphaned_item_strategy_dict
          triggers_block_dict sources_block_no_entries example_multibranch_keys)
  then have r: "root_xml example_collab (PDict ?d) fresh =
      Inr (fst (projr (root_xml example_collab (PDict ?d) fresh)), fresh)"
    by auto
  show ?thesis
    using orphaned_item_strategy_children [OF m r]
    by (simp add: example_multibranch_keys py_str_def lower_def lower_char_def)
qed

text \<open>
  Against C7 as stated: a key that is present with the empty YAML value (\<open>None\<close>) gives
  the text \<open>none\<close>, not \<open>false\<close>.
\<close>

theorem prune_dead_branches_none_counterexample:
  "find_tag ''orphanedItemStrategy''
     (fst (projr (root_xml example_collab
        (PDict [(''multibranch'',
           PDict ((''prune-dead-branches'', PNone) # example_multibranch []))]) fresh))) =
     Some (Element ''orphanedItemStrategy''
            [(''class'', ''com.cloudbees.hudson.plugins.folder.computed.DefaultOrphanedItemStrategy''),
             (''plugin'', ''cloudbees-folder'')] PNone
            [Element ''pruneDeadBranches'' [] (PStr ''none'') [],
             Element ''daysToKeep'' [] (PStr ''-1'') [],
             Element ''numToKeep'' [] (PStr ''-1'') []])"
proof -
  let ?pd = "(''prune-dead-branches'', PNone) # example_multibranch []"
  let ?d = "[(''multibranch'', PDict ?pd)]"
  have m: "map_of ?d ''multibranch'' = Some (PDict ?pd)"
    by simp
  show ?thesis
    by (simp add: root_xml_dict [OF m] properties_block_dict orphaned_item_strategy_dict
          triggers_block_dict sources_block_no_entries example_multibranch_keys
          py_str_def lower_def lower_char_def)
qed


section \<open>Branch strategies of a source entry\<close>

text \<open>
  C5. For an scm entry whose git mapping has no \<open>strategy\<close> key, the strategy node
  appended to the branch source has the default-strategy class and a \<open>properties\<close> child
  of class \<open>empty-list\<close> without children. For a strategy mapping without
  \<open>exceptions\<close> the node has the same default-strategy class and a \<open>properties\<close> child
  of class \<open>java.util.Arrays$ArrayList\<close> that holds exactly one no-trigger branch
  property. For a strategy mapping whose \<open>exceptions\<close> is a list, the node has the
  named-exceptions class, a \<open>defaultProperties\<close> child with one no-trigger property, and
  a \<open>namedExceptions\<close> child with one entry per item of the list in the list's order,
  each with a one-item no-trigger list and a \<open>name\<close> child whose text is the item as
  it is.
\<close>

theorem strategy_node_by_input:
  "(map_of e ''git'' = Some (PDict g) \<longrightarrow>
    generate_git_scm_xml C (Element ''jenkins.branch.BranchSource'' [] PNone []) (PDict g)
      (warn (''git_data = '' @ py_str (py_repr C) (PDict e)) st) = Inr (branch_source, st1) \<longrightarrow>
    (map_of g ''strategy'' = None \<longrightarrow>
       scm_entry C (PDict e) sources_data st =
         Inr (add_child sources_data (generate_default_source_strategy branch_source), st1)) \<and>
    (\<forall>strategy. map_of g ''strategy'' = Some strategy \<longrightarrow>
       scm_entry C (PDict e) sources_data st =
         bind (generate_source_strategy C branch_source strategy st1)
           (\<lambda>(branch_source, st). Inr (add_child sources_data branch_source, st)))) \<and>
   generate_default_source_strategy xml_parent =
     add_child xml_parent
       (Element ''strategy'' [(''class'', ''jenkins.branch.DefaultBranchPropertyStrategy'')] PNone
          [Element ''properties'' [(''class'', ''empty-list'')] PNone []]) \<and>
   (map_of s ''exceptions'' = None \<longrightarrow>
    (\<exists>st'. generate_source_strategy C xml_parent (PDict s) st =
       Inr (add_child xml_parent
              (Element ''strategy''
                 [(''class'', ''jenkins.branch.DefaultBranchPropertyStrategy'')] PNone
                 [Element ''properties'' [(''class'', ''java.util.Arrays$ArrayList'')] PNone
                    [Element ''a'' [(''class'', ''jenkins.branch.BranchProperty-array'')] PNone
                       [Element ''jenkins.branch.NoTriggerBranchProperty'' [] PNone []]]]),
            st'))) \<and>
   (map_of s ''exceptions'' = Some (PList names) \<longrightarrow>
    (\<exists>st'. generate_source_strategy C xml_parent (PDict s) st =
       Inr (add_child xml_parent
              (Element ''strategy''
                 [(''class'', ''jenkins.branch.NamedExceptionsBranchPropertyStrategy'')] PNone
                 [Element ''defaultProperties''
                    [(''class'', ''java.util.Arrays$ArrayList'')] PNone
                    [Element ''a'' [(''class'', ''jenkins.branch.BranchProperty-array'')] PNone
                       [Element ''jenkins.branch.NoTriggerBranchProperty'' [] PNone []]],
                  Element ''namedExceptions''
                    [(''class'', ''java.util.Arrays$ArrayList'')] PNone
                    [Element ''a''
                       [(''class'',
                         ''jenkins.branch.NamedExceptionsBranchPropertyStrategy$Named-array'')]
                       PNone
                       (map (\<lambda>name.
                          Element ''jenkins.branch.NamedExceptionsBranchPropertyStrategy_-Named''
                            [] PNone
                            [Element ''props''
                               [(''class'', ''java.util.Arrays$ArrayList'')] PNone
                               [Element ''a''
                                  [(''class'', ''jenkins.branch.BranchProperty-array'')] PNone
                                  [Element ''jenkins.branch.NoTriggerBranchProperty'' []
                                     PNone []]],
                             Element ''name'' [] name []])
                          names)]]),
            st')))"
proof (intro conjI impI allI)
  assume "map_of e ''git'' = Some (PDict g)"
    and "generate_git_scm_xml C (Element ''jenkins.branch.BranchSource'' [] PNone []) (PDict g)
      (warn (''git_data = '' @ py_str (py_repr C) (PDict e)) st) = Inr (branch_source, st1)"
    and "map_of g ''strategy'' = None"
  then show "scm_entry C (PDict e) sources_data st =
      Inr (add_child sources_data (generate_default_source_strategy branch_source), st1)"
    by (simp add: scm_entry_git_dict)
next
  fix strategy
  assume "map_of e ''git'' = Some (PDict g)"
    and "generate_git_scm_xml C (Element ''jenkins.branch.BranchSource'' [] PNone []) (PDict g)
      (warn (''git_data = '' @ py_str (py_repr C) (PDict e)) st) = Inr (branch_source, st1)"
    and "map_of g ''strategy'' = Some strategy"
  then show "scm_entry C (PDict e) sources_data st =
      bind (generate_source_strategy C branch_source strategy st1)
        (\<lambda>(branch_source, st). Inr (add_child sources_data branch_source, st))"
    by (simp add: scm_entry_git_dict)
next
  show "generate_default_source_strategy xml_parent =
     add_child xml_parent
       (Element ''strategy'' [(''class'', ''jenkins.branch.DefaultBranchPropertyStrategy'')] PNone
          [Element ''properties'' [(''class'', ''empty-list'')] PNone []])"
    by (simp add: generate_default_source_strategy_def)
next
  assume "map_of s ''exceptions'' = None"
  then show "\<exists>st'. generate_source_strategy C xml_parent (PDict s) st =
       Inr (add_child xml_parent
              (Element ''strategy''
                 [(''class'', ''jenkins.branch.DefaultBranchPropertyStrategy'')] PNone
                 [Element ''properties'' [(''class'', ''java.util.Arrays$ArrayList'')] PNone
                    [Element ''a'' [(''class'', ''jenkins.branch.BranchProperty-array'')] PNone
                       [Element ''jenkins.branch.NoTriggerBranchProperty'' [] PNone []]]]),
            st')"
    by (simp add: generate_source_strategy_dict no_trigger_array_def)
next
  assume "map_of s ''exceptions'' = Some (PList names)"
  then show "\<exists>st'. generate_source_strategy C xml_parent (PDict s) st =
       Inr (add_child xml_parent
              (Element ''strategy''
                 [(''class'', ''jenkins.branch.NamedExceptionsBranchPropertyStrategy'')] PNone
                 [Element ''defaultProperties''
                    [(''class'', ''java.util.Arrays$ArrayList'')] PNone
                    [Element ''a'' [(''class'', ''jenkins.branch.BranchProperty-array'')] PNone
                       [Element ''jenkins.branch.NoTriggerBranchProperty'' [] PNone []]],
                  Element ''namedExceptions''
                    [(''class'', ''java.util.Arrays$ArrayList'')] PNone
                    [Element ''a''
                       [(''class'',
                         ''jenkins.branch.NamedExceptionsBranchPropertyStrategy$Named-array'')]
                       PNone
                       (map (\<lambda>name.
                          Element ''jenkins.branch.NamedExceptionsBranchPropertyStrategy_-Named''
                            [] PNone
                            [Element ''props''
                               [(''class'', ''java.util.Arrays$ArrayList'')] PNone
                               [Element ''a''
                                  [(''class'', ''jenkins.branch.BranchProperty-array'')] PNone
                                  [Element ''jenkins.branch.NoTriggerBranchProperty'' []
                                     PNone []]],
                             Element ''name'' [] name []])
                          names)]]),
            st')"
    by (simp add: generate_source_strategy_dict no_trigger_array_def named_exception_fn)
qed


theorem strategy_node_by_input_witness:
  "map_of [(''git'', PDict example_git)] ''git'' = Some (PDict example_git) \<and>
   map_of example_git ''strategy'' = None \<and>
   find_tag ''strategy''
     (last (children (fst (projr
        (scm_entry example_collab (PDict [(''git'', PDict example_git)])
           (Element ''data'' [] PNone []) fresh))))) =
     Some (Element ''strategy''
             [(''class'', ''jenkins.branch.DefaultBranchPropertyStrategy'')] PNone
             [Element ''properties'' [(''class'', ''empty-list'')] PNone []]) \<and>
   find_tag ''strategy''
     (fst (projr (generate_source_strategy example_collab
        (Element ''jenkins.branch.BranchSource'' [] PNone []) (PDict []) fresh))) =
     Some (Element ''strategy''
             [(''class'', ''jenkins.branch.DefaultBranchPropertyStrategy'')] PNone
             [Element ''properties'' [(''class'', ''java.util.Arrays$ArrayList'')] PNone
                [Element ''a'' [(''class'', ''jenkins.branch.BranchProperty-array'')] PNone
                   [Element ''jenkins.branch.NoTriggerBranchProperty'' [] PNone []]]]) \<and>
   find_tag ''strategy''
     (fst (projr (generate_source_strategy example_collab
        (Element ''jenkins.branch.BranchSource'' [] PNone [])
        (PDict [(''exceptions'', PList [PStr ''release/1.0'', PStr ''hotfix''])]) fresh))) =
     Some (Element ''strategy''
             [(''class'', ''jenkins.branch.NamedExceptionsBranchPropertyStrategy'')] PNone
             [Element ''defaultProperties''
                [(''class'', ''java.util.Arrays$ArrayList'')] PNone
                [Element ''a'' [(''class'', ''jenkins.branch.BranchProperty-array'')] PNone
                   [Element ''jenkins.branch.NoTriggerBranchProperty'' [] PNone []]],
              Element ''namedExceptions''
                [(''class'', ''java.util.Arrays$ArrayList'')] PNone
                [Element ''a''
                   [(''class'',
                     ''jenkins.branch.NamedExceptionsBranchPropertyStrategy$Named-array'')]
                   PNone
                   [Element ''jenkins.branch.NamedExceptionsBranchPropertyStrategy_-Named''
                      [] PNone
                      [Element ''props''
                         [(''class'', ''java.util.Arrays$ArrayList'')] PNone
                         [Element ''a''
                            [(''class'', ''jenkins.branch.BranchProperty-array'')] PNone
                            [Element ''jenkins.branch.NoTriggerBranchProperty'' [] PNone []]],
                       Element ''name'' [] (PStr ''release/1.0'') []],
                    Element ''jenkins.branch.NamedExceptionsBranchPropertyStrategy_-Named''
                      [] PNone
                      [Element ''props''
                         [(''class'', ''java.util.Arrays$ArrayList'')] PNone
                         [Element ''a''
                            [(''class'', ''jenkins.branch.BranchProperty-array'')] PNone
                            [Element ''jenkins.branch.NoTriggerBranchProperty'' [] PNone []]],
                       Element ''name'' [] (PStr ''hotfix'') []]]]])"
  using strategy_node_by_input [where e = "[(''git'', PDict example_git)]" and g = example_git
      and C = example_collab and st = fresh and s = "[]"
      and xml_parent = "Element ''jenkins.branch.BranchSource'' [] PNone []"]
    strategy_node_by_input [where C = example_collab and st = fresh
      and s = "[(''exceptions'', PList [PStr ''release/1.0'', PStr ''hotfix''])]"
      and names = "[PStr ''release/1.0'', PStr ''hotfix'']"
      and xml_parent = "Element ''jenkins.branch.BranchSource'' [] PNone []"]
  by (simp add: scm_entry_git_dict generate_git_scm_xml_dict example_git_def example_git_made
        generate_default_source_strategy_def spliced_def example_scm_def
        generate_source_strategy_dict no_trigger_array_def named_exception_def)


section \<open>A git value that is not a mapping\<close>

text \<open>
  C9. An scm entry that is a mapping with the key \<open>git\<close> passes the test of line 232
  whatever the value of \<open>git\<close> is. When that value is not a mapping the entry is not
  skipped: the first statement of the git source generator calls \<open>get\<close> on it and
  raises AttributeError. The build then returns no document: with the entry anywhere
  in the \<open>scm\<close> list the result is an exception, and it is this AttributeError
  whenever the two required fields are there and the entries before it went through.
\<close>

theorem git_value_not_a_mapping_aborts:
  assumes "map_of e ''git'' = Some v" and "\<not> is_dict v"
  shows "recognised (PDict e) \<and>
     scm_entry C (PDict e) sources_data st = Inl AttributeError \<and>
     (map_of d ''multibranch'' = Some (PDict pd) \<longrightarrow>
      map_of pd ''scm'' = Some (PList xs) \<longrightarrow>
      PDict e \<in> set xs \<longrightarrow>
        (\<exists>err. root_xml C (PDict d) st = Inl err)) \<and>
     (map_of d ''multibranch'' = Some (PDict pd) \<longrightarrow>
      map_of pd ''periodic-folder-spec'' \<noteq> None \<longrightarrow>
      map_of pd ''periodic-folder-interval'' \<noteq> None \<longrightarrow>
      map_of pd ''scm'' = Some (PList (before @ PDict e # rest)) \<longrightarrow>
      scm_loop C before (Element ''data'' [] PNone []) st = Inr (sources_data, st1) \<longrightarrow>
        root_xml C (PDict d) st = Inl AttributeError)"
proof (intro conjI impI)
  show "recognised (PDict e)"
    using assms(1) by (simp add: recognised_dict)
  show "scm_entry C (PDict e) sources_data st = Inl AttributeError"
    using assms by (rule scm_entry_git_not_dict)
next
  assume mb: "map_of d ''multibranch'' = Some (PDict pd)"
    and scm: "map_of pd ''scm'' = Some (PList xs)"
    and mem: "PDict e \<in> set xs"
  have "\<exists>err. scm_loop C xs (Element ''data'' [] PNone []) st = Inl err"
    using mem by (rule scm_loop_failing_entry) (simp add: scm_entry_git_not_dict [OF assms])
  then obtain err where "sources_block C (PDict pd) st = Inl err"
    using scm by (auto simp: sources_block_dict)
  then show "\<exists>err. root_xml C (PDict d) st = Inl err"
    by (auto simp: root_xml_dict [OF mb] bind_def split: sum.splits)
next
  assume mb: "map_of d ''multibranch'' = Some (PDict pd)"
    and spec: "map_of pd ''periodic-folder-spec'' \<noteq> None"
    and interval: "map_of pd ''periodic-folder-interval'' \<noteq> None"
    and scm: "map_of pd ''scm'' = Some (PList (before @ PDict e # rest))"
    and before: "scm_loop C before (Element ''data'' [] PNone []) st = Inr (sources_data, st1)"
  have "scm_loop C (before @ PDict e # rest) (Element ''data'' [] PNone []) st =
      Inl AttributeError"
    by (simp add: scm_loop_append before scm_entry_git_not_dict [OF assms])
  with mb spec interval scm show "root_xml C (PDict d) st = Inl AttributeError"
    by (rule root_xml_loop_error)
qed

theorem git_value_not_a_mapping_aborts_witness:
  "map_of [(''git'', PStr ''https://x/y.git'')] ''git'' = Some (PStr ''https://x/y.git'') \<and>
   \<not> is_dict (PStr ''https://x/y.git'') \<and>
   recognised (PDict [(''git'', PStr ''https://x/y.git'')]) \<and>
   PDict [(''git'', PStr ''https://x/y.git'')]
     \<in> set [PStr ''svn'', PDict [(''git'', PStr ''https://x/y.git'')]] \<and>
   scm_loop example_collab [PStr ''svn''] (Element ''data'' [] PNone []) fresh =
     Inr (Element ''data'' [] PNone [],
          \<lparr>uuid_calls = 0, warnings = [''git_data = svn'', ''We cannot process scm'']\<rparr>) \<and>
   root_xml example_collab
     (PDict [(''multibranch'',
        PDict (example_multibranch
          [PStr ''svn'', PDict [(''git'', PStr ''https://x/y.git'')]]))]) fresh =
     Inl AttributeError"
proof -
  have skipped: "scm_loop example_collab [PStr ''svn''] (Element ''data'' [] PNone []) fresh =
     Inr (Element ''data'' [] PNone [],
          \<lparr>uuid_calls = 0, warnings = [''git_data = svn'', ''We cannot process scm'']\<rparr>)"
    by (simp add: scm_entry_skipped recognised_def is_dict_def warn_def fresh_def py_str_def)
  show ?thesis
    using git_value_not_a_mapping_aborts
      [where e = "[(''git'', PStr ''https://x/y.git'')]" and v = "PStr ''https://x/y.git''"
        and C = example_collab and st = fresh
        and d = "[(''multibranch'',
           PDict (example_multibranch
             [PStr ''svn'', PDict [(''git'', PStr ''https://x/y.git'')]]))]"
        and pd = "example_multibranch [PStr ''svn'', PDict [(''git'', PStr ''https://x/y.git'')]]"
        and before = "[PStr ''svn'']" and rest = "[]"
        and xs = "[PStr ''svn'', PDict [(''git'', PStr ''https://x/y.git'')]]"
        and sources_data = "Element ''data'' [] PNone []"
        and ?st1.0 = "\<lparr>uuid_calls = 0, warnings = [''git_data = svn'', ''We cannot process scm'']\<rparr>"]
      skipped
    by (simp add: is_dict_def example_multibranch_keys)
qed


section \<open>Required fields\<close>

text \<open>
  C2. With \<open>multibranch\<close> a mapping: when \<open>periodic-folder-spec\<close> is not in it the
  build raises KeyError naming that field, and when it is there but
  \<open>periodic-folder-interval\<close> is not, KeyError naming this one. When both are there and
  the loop reaches a git mapping without \<open>url\<close> (or with \<open>url\<close> and without
  \<open>credentials-id\<close>), the build raises KeyError naming that field. In each case the
  result is the exception and no document. Conversely a KeyError of the build always
  names one of the four fields, and the field is missing where it is required; so with
  all four present no KeyError is raised.
\<close>

theorem required_fields_lookup_errors:
  assumes "map_of d ''multibranch'' = Some (PDict pd)"
  shows "(map_of pd ''periodic-folder-spec'' = None \<longrightarrow>
       root_xml C (PDict d) st = Inl (KeyError ''periodic-folder-spec'')) \<and>
     (map_of pd ''periodic-folder-spec'' \<noteq> None \<longrightarrow>
      map_of pd ''periodic-folder-interval'' = None \<longrightarrow>
       root_xml C (PDict d) st = Inl (KeyError ''periodic-folder-interval'')) \<and>
     (map_of pd ''periodic-folder-spec'' \<noteq> None \<longrightarrow>
      map_of pd ''periodic-folder-interval'' \<noteq> None \<longrightarrow>
      map_of pd ''scm'' = Some (PList (before @ PDict e # rest)) \<longrightarrow>
      scm_loop C before (Element ''data'' [] PNone []) st = Inr (sources_data, st1) \<longrightarrow>
      map_of e ''git'' = Some (PDict g) \<longrightarrow>
        (map_of g ''url'' = None \<longrightarrow>
           root_xml C (PDict d) st = Inl (KeyError ''url'')) \<and>
        (map_of g ''url'' \<noteq> None \<longrightarrow> map_of g ''credentials-id'' = None \<longrightarrow>
           root_xml C (PDict d) st = Inl (KeyError ''credentials-id''))) \<and>
     (\<forall>k. root_xml C (PDict d) st = Inl (KeyError k) \<longrightarrow>
        k = ''periodic-folder-spec'' \<and> map_of pd k = None \<or>
        k = ''periodic-folder-interval'' \<and> map_of pd k = None \<or>
        (k = ''url'' \<or> k = ''credentials-id'') \<and>
        (\<exists>scm entries e g.
           map_of pd ''scm'' = Some scm \<and> py_iter scm = Inr entries \<and>
           PDict e \<in> set entries \<and> map_of e ''git'' = Some (PDict g) \<and>
           map_of g k = None))"
proof (intro conjI impI allI)
  assume "map_of pd ''periodic-folder-spec'' = None"
  then show "root_xml C (PDict d) st = Inl (KeyError ''periodic-folder-spec'')"
    by (simp add: root_xml_dict [OF assms] properties_block_dict orphaned_item_strategy_dict
          triggers_block_dict)
next
  assume "map_of pd ''periodic-folder-spec'' \<noteq> None"
    and "map_of pd ''periodic-folder-interval'' = None"
  then show "root_xml C (PDict d) st = Inl (KeyError ''periodic-folder-interval'')"
    by (auto simp: root_xml_dict [OF assms] properties_block_dict orphaned_item_strategy_dict
          triggers_block_dict)
next
  assume req: "map_of pd ''periodic-folder-spec'' \<noteq> None"
      "map_of pd ''periodic-folder-interval'' \<noteq> None"
    and scm: "map_of pd ''scm'' = Some (PList (before @ PDict e # rest))"
    and before: "scm_loop C before (Element ''data'' [] PNone []) st = Inr (sources_data, st1)"
    and git: "map_of e ''git'' = Some (PDict g)"
    and url: "map_of g ''url'' = None"
  have "scm_loop C (before @ PDict e # rest) (Element ''data'' [] PNone []) st =
      Inl (KeyError ''url'')"
    by (simp add: scm_loop_append before scm_entry_git_dict [OF git]
          generate_git_scm_xml_dict url)
  with assms req scm show "root_xml C (PDict d) st = Inl (KeyError ''url'')"
    by (rule root_xml_loop_error)
next
  assume req: "map_of pd ''periodic-folder-spec'' \<noteq> None"
      "map_of pd ''periodic-folder-interval'' \<noteq> None"
    and scm: "map_of pd ''scm'' = Some (PList (before @ PDict e # rest))"
    and before: "scm_loop C before (Element ''data'' [] PNone []) st = Inr (sources_data, st1)"
    and git: "map_of e ''git'' = Some (PDict g)"
    and url: "map_of g ''url'' \<noteq> None"
    and cred: "map_of g ''credentials-id'' = None"
  have "scm_loop C (before @ PDict e # rest) (Element ''data'' [] PNone []) st =
      Inl (KeyError ''credentials-id'')"
    using url
    by (auto simp: scm_loop_append before scm_entry_git_dict [OF git]
          generate_git_scm_xml_dict cred)
  with assms req scm show "root_xml C (PDict d) st = Inl (KeyError ''credentials-id'')"
    by (rule root_xml_loop_error)
next
  fix k
  assume err: "root_xml C (PDict d) st = Inl (KeyError k)"
  from root_xml_error_cases [OF assms err]
  show "k = ''periodic-folder-spec'' \<and> map_of pd k = None \<or>
        k = ''periodic-folder-interval'' \<and> map_of pd k = None \<or>
        (k = ''url'' \<or> k = ''credentials-id'') \<and>
        (\<exists>scm entries e g.
           map_of pd ''scm'' = Some scm \<and> py_iter scm = Inr entries \<and>
           PDict e \<in> set entries \<and> map_of e ''git'' = Some (PDict g) \<and>
           map_of g k = None)"
  proof
    assume "triggers_block (PDict pd) = Inl (KeyError k)"
    then show ?thesis
      by (auto simp: triggers_block_dict split: option.splits)
  next
    assume "sources_block C (PDict pd) st = Inl (KeyError k)"
    then obtain scm entries where scm: "map_of pd ''scm'' = Some scm"
      and entries: "py_iter scm = Inr entries"
      and loop: "scm_loop C entries (Element ''data'' [] PNone []) st = Inl (KeyError k)"
      by (auto simp: sources_block_dict bind_def py_iter_def
            split: option.splits sum.splits pyval.splits)
    from scm_loop_KeyError [OF loop] scm entries show ?thesis
      by blast
  qed
qed


theorem required_fields_lookup_errors_witness:
  "root_xml example_collab (PDict [(''multibranch'', PDict [])]) fresh =
     Inl (KeyError ''periodic-folder-spec'') \<and>
   root_xml example_collab
     (PDict [(''multibranch'', PDict [(''periodic-folder-spec'', PStr ''H/5 * * * *'')])]) fresh =
     Inl (KeyError ''periodic-folder-interval'') \<and>
   root_xml example_collab
     (PDict [(''multibranch'',
        PDict (example_multibranch
          [PDict [(''git'', PDict [(''credentials-id'', PStr ''c1'')])]]))]) fresh =
     Inl (KeyError ''url'') \<and>
   root_xml example_collab
     (PDict [(''multibranch'',
        PDict (example_multibranch
          [PDict [(''git'', PDict [(''url'', PStr ''https://x/y.git'')])]]))]) fresh =
     Inl (KeyError ''credentials-id'') \<and>
   (\<forall>k. root_xml example_collab
     (PDict [(''multibranch'',
        PDict (example_multibranch [PDict [(''git'', PDict example_git)]]))]) fresh \<noteq>
     Inl (KeyError k))"
proof (intro conjI allI)
  show "root_xml example_collab (PDict [(''multibranch'', PDict [])]) fresh =
     Inl (KeyError ''periodic-folder-spec'')"
    using required_fields_lookup_errors
      [where d = "[(''multibranch'', PDict [])]" and pd = "[]" and C = example_collab
        and st = fresh]
    by simp
  show "root_xml example_collab
     (PDict [(''multibranch'', PDict [(''periodic-folder-spec'', PStr ''H/5 * * * *'')])]) fresh =
     Inl (KeyError ''periodic-folder-interval'')"
    using required_fields_lookup_errors
      [where d = "[(''multibranch'', PDict [(''periodic-folder-spec'', PStr ''H/5 * * * *'')])]"
        and pd = "[(''periodic-folder-spec'', PStr ''H/5 * * * *'')]" and C = example_collab
        and st = fresh]
    by simp
  show "root_xml example_collab
     (PDict [(''multibranch'',
        PDict (example_multibranch
          [PDict [(''git'', PDict [(''credentials-id'', PStr ''c1'')])]]))]) fresh =
     Inl (KeyError ''url'')"
    using required_fields_lookup_errors
      [where d = "[(''multibranch'',
          PDict (example_multibranch
            [PDict [(''git'', PDict [(''credentials-id'', PStr ''c1'')])]]))]"
        and pd = "example_multibranch [PDict [(''git'', PDict [(''credentials-id'', PStr ''c1'')])]]"
        and C = example_collab and st = fresh and before = "[]" and rest = "[]"
        and e = "[(''git'', PDict [(''credentials-id'', PStr ''c1'')])]"
        and g = "[(''credentials-id'', PStr ''c1'')]"
        and sources_data = "Element ''data'' [] PNone []" and ?st1.0 = fresh]
    by (simp add: example_multibranch_keys)
  show "root_xml example_collab
     (PDict [(''multibranch'',
        PDict (example_multibranch
          [PDict [(''git'', PDict [(''url'', PStr ''https://x/y.git'')])]]))]) fresh =
     Inl (KeyError ''credentials-id'')"
    using required_fields_lookup_errors
      [where d = "[(''multibranch'',
          PDict (example_multibranch
            [PDict [(''git'', PDict [(''url'', PStr ''https://x/y.git'')])]]))]"
        and pd = "example_multibranch
            [PDict [(''git'', PDict [(''url'', PStr ''https://x/y.git'')])]]"
        and C = example_collab and st = fresh and before = "[]" and rest = "[]"
        and e = "[(''git'', PDict [(''url'', PStr ''https://x/y.git'')])]"
        and g = "[(''url'', PStr ''https://x/y.git'')]"
        and sources_data = "Element ''data'' [] PNone []" and ?st1.0 = fresh]
    by (simp add: example_multibranch_keys)
  fix k
  let ?pd = "example_multibranch [PDict [(''git'', PDict example_git)]]"
  have m: "map_of [(''multibranch'', PDict ?pd)] ''multibranch'' = Some (PDict ?pd)"
    by simp
  note converse = required_fields_lookup_errors
    [OF m, THEN conjunct2, THEN conjunct2, THEN conjunct2, THEN spec, of example_collab fresh k]
  show "root_xml example_collab (PDict [(''multibranch'', PDict ?pd)]) fresh \<noteq>
     Inl (KeyError k)"
  proof
    assume "root_xml example_collab (PDict [(''multibranch'', PDict ?pd)]) fresh =
       Inl (KeyError k)"
    with converse show False
      by (auto simp: example_multibranch_keys example_git_def)
  qed
qed


section \<open>Entries of the scm list that are skipped\<close>

text \<open>
  C6. An entry of the \<open>scm\<close> sequence passes the test of line 232 exactly when it is
  a mapping with the key \<open>git\<close>. Every other entry is skipped: the loop body adds
  nothing to the tree, draws no identifier, raises nothing, and logs its two notices;
  the loop goes on with the entries after it. The build on a list with such entries
  gives the document (or the exception) of the same list without them, and when every
  entry is of this kind the build returns the complete document with an empty
  \<open>data\<close> node and two notices per entry.
\<close>

theorem malformed_scm_entries_skipped:
  "recognised git_data = (\<exists>e. git_data = PDict e \<and> map_of e ''git'' \<noteq> None) \<and>
   (\<not> recognised git_data \<longrightarrow>
      scm_entry C git_data sources_data st =
        Inr (sources_data, st\<lparr>warnings := warnings st @ skip_notices C git_data\<rparr>) \<and>
      scm_loop C (before @ git_data # rest) sources_data st =
        bind (scm_loop C before sources_data st) (\<lambda>(sources_data, st).
          scm_loop C rest sources_data
            (st\<lparr>warnings := warnings st @ skip_notices C git_data\<rparr>))) \<and>
   (map_of d ''multibranch'' = Some (PDict pd) \<longrightarrow>
    map_of pd ''scm'' = Some (PList xs) \<longrightarrow>
    map_of d' ''multibranch'' = Some (PDict pd') \<longrightarrow>
    map_of pd' ''scm'' = Some (PList (filter recognised xs)) \<longrightarrow>
    (\<forall>k. k \<noteq> ''scm'' \<longrightarrow> map_of pd' k = map_of pd k) \<longrightarrow>
      outcome (root_xml C (PDict d') st) = outcome (root_xml C (PDict d) st)) \<and>
   (map_of d ''multibranch'' = Some (PDict pd) \<longrightarrow>
    map_of pd ''periodic-folder-spec'' \<noteq> None \<longrightarrow>
    map_of pd ''periodic-folder-interval'' \<noteq> None \<longrightarrow>
    map_of pd ''scm'' = Some (PList xs) \<longrightarrow>
    (\<forall>x\<in>set xs. \<not> recognised x) \<longrightarrow>
      (\<exists>properties orphaned triggers.
         root_xml C (PDict d) st =
           Inr (Element ''org.jenkinsci.plugins.workflow.multibranch.WorkflowMultiBranchProject''
                  [(''plugin'', ''workflow-multibranch'')] PNone
                  [properties, views, views_tab_bar, health_metrics, icon, orphaned, triggers,
                   Element ''sources''
                     [(''class'', ''jenkins.branch.MultiBranchProject$BranchSourceList''),
                      (''plugin'', ''branch-api'')] PNone
                     [Element ''data'' [] PNone [],
                      Element ''owner''
                        [(''class'',
                          ''org.jenkinsci.plugins.workflow.multibranch.WorkflowMultiBranchProject''),
                         (''reference'', ''../..'')] PNone []],
                   factory],
                st\<lparr>warnings := warnings st @ concat (map (skip_notices C) xs)\<rparr>)))"
proof (intro conjI impI)
  show "recognised git_data = (\<exists>e. git_data = PDict e \<and> map_of e ''git'' \<noteq> None)"
    by (rule recognised_iff)
next
  assume "\<not> recognised git_data"
  then show "scm_entry C git_data sources_data st =
      Inr (sources_data, st\<lparr>warnings := warnings st @ skip_notices C git_data\<rparr>)"
    by (rule scm_entry_skipped_notices)
next
  assume "\<not> recognised git_data"
  then show "scm_loop C (before @ git_data # rest) sources_data st =
      bind (scm_loop C before sources_data st) (\<lambda>(sources_data, st).
        scm_loop C rest sources_data
          (st\<lparr>warnings := warnings st @ skip_notices C git_data\<rparr>))"
    by (simp add: scm_loop_append scm_entry_skipped_notices)
next
  assume d: "map_of d ''multibranch'' = Some (PDict pd)"
    and scm: "map_of pd ''scm'' = Some (PList xs)"
    and d': "map_of d' ''multibranch'' = Some (PDict pd')"
    and scm': "map_of pd' ''scm'' = Some (PList (filter recognised xs))"
    and same: "\<forall>k. k \<noteq> ''scm'' \<longrightarrow> map_of pd' k = map_of pd k"
  show "outcome (root_xml C (PDict d') st) = outcome (root_xml C (PDict d) st)"
    by (rule root_xml_outcome_filtered [OF d d' scm scm' same])
next
  assume d: "map_of d ''multibranch'' = Some (PDict pd)"
    and spec: "map_of pd ''periodic-folder-spec'' \<noteq> None"
    and interval: "map_of pd ''periodic-folder-interval'' \<noteq> None"
    and scm: "map_of pd ''scm'' = Some (PList xs)"
    and all: "\<forall>x\<in>set xs. \<not> recognised x"
  from root_xml_sources [OF d spec interval, of C st]
  show "\<exists>properties orphaned triggers.
         root_xml C (PDict d) st =
           Inr (Element ''org.jenkinsci.plugins.workflow.multibranch.WorkflowMultiBranchProject''
                  [(''plugin'', ''workflow-multibranch'')] PNone
                  [properties, views, views_tab_bar, health_metrics, icon, orphaned, triggers,
                   Element ''sources''
                     [(''class'', ''jenkins.branch.MultiBranchProject$BranchSourceList''),
                      (''plugin'', ''branch-api'')] PNone
                     [Element ''data'' [] PNone [],
                      Element ''owner''
                        [(''class'',
                          ''org.jenkinsci.plugins.workflow.multibranch.WorkflowMultiBranchProject''),
                         (''reference'', ''../..'')] PNone []],
                   factory],
                st\<lparr>warnings := warnings st @ concat (map (skip_notices C) xs)\<rparr>)"
    by (simp add: sources_block_dict scm scm_loop_all_skipped [OF all])
qed


theorem malformed_scm_entries_skipped_witness:
  "\<not> recognised (PStr ''svn'') \<and>
   \<not> recognised (PDict [(''hg'', PNone)]) \<and>
   recognised (PDict [(''git'', PDict example_git)]) \<and>
   scm_entry example_collab (PStr ''svn'') (Element ''data'' [] PNone []) fresh =
     Inr (Element ''data'' [] PNone [],
          \<lparr>uuid_calls = 0, warnings = [''git_data = svn'', ''We cannot process scm'']\<rparr>) \<and>
   outcome (root_xml example_collab
      (PDict [(''multibranch'',
         PDict (example_multibranch
           [PStr ''svn'', PDict [(''git'', PDict example_git)], PDict [(''hg'', PNone)]]))])
      fresh) =
   outcome (root_xml example_collab
      (PDict [(''multibranch'',
         PDict (example_multibranch [PDict [(''git'', PDict example_git)]]))])
      fresh) \<and>
   (\<exists>document st'.
      root_xml example_collab
        (PDict [(''multibranch'',
           PDict (example_multibranch
             [PStr ''svn'', PDict [(''git'', PDict example_git)], PDict [(''hg'', PNone)]]))])
        fresh = Inr (document, st')) \<and>
   (\<exists>document.
      root_xml example_collab
        (PDict [(''multibranch'',
           PDict (example_multibranch [PStr ''svn'', PDict [(''hg'', PNone)]]))]) fresh =
        Inr (document,
             \<lparr>uuid_calls = 0,
                warnings = [''git_data = svn'', ''We cannot process scm'',
                            ''git_data = <repr>'', ''We cannot process scm'']\<rparr>))"
proof -
  let ?valid = "PDict [(''git'', PDict example_git)]"
  let ?xs = "[PStr ''svn'', ?valid, PDict [(''hg'', PNone)]]"
  let ?ys = "[PStr ''svn'', PDict [(''hg'', PNone)]]"
  have r: "\<not> recognised (PStr ''svn'')" "\<not> recognised (PDict [(''hg'', PNone)])"
      "recognised ?valid"
    by (simp_all add: recognised_def is_dict_def)
  have same: "\<forall>k. k \<noteq> ''scm'' \<longrightarrow>
      map_of (example_multibranch [?valid]) k = map_of (example_multibranch ?xs) k"
    by (simp add: example_multibranch_def)
  have filtered: "map_of (example_multibranch [?valid]) ''scm'' =
      Some (PList (filter recognised ?xs))"
    by (simp add: example_multibranch_keys r)
  have keys: "map_of (example_multibranch ?xs) ''scm'' = Some (PList ?xs)"
      "map_of (example_multibranch ?ys) ''scm'' = Some (PList ?ys)"
      "map_of (example_multibranch ?ys) ''periodic-folder-spec'' \<noteq> None"
      "map_of (example_multibranch ?ys) ''periodic-folder-interval'' \<noteq> None"
    by (simp_all add: example_multibranch_keys)
  have m: "map_of [(''multibranch'', PDict pd)] ''multibranch'' = Some (PDict pd)" for pd
    by simp
  have all: "\<forall>x\<in>set ?ys. \<not> recognised x"
    using r by simp
  note inst = malformed_scm_entries_skipped
    [where git_data = "PStr ''svn''" and C = example_collab and st = fresh
      and sources_data = "Element ''data'' [] PNone []"]
  have "scm_entry example_collab (PStr ''svn'') (Element ''data'' [] PNone []) fresh =
     Inr (Element ''data'' [] PNone [],
          fresh\<lparr>warnings := warnings fresh @ skip_notices example_collab (PStr ''svn'')\<rparr>)"
    by (rule inst [THEN conjunct2, THEN conjunct1, rule_format, OF r(1), THEN conjunct1])
  then have entry: "scm_entry example_collab (PStr ''svn'') (Element ''data'' [] PNone []) fresh =
     Inr (Element ''data'' [] PNone [],
          \<lparr>uuid_calls = 0, warnings = [''git_data = svn'', ''We cannot process scm'']\<rparr>)"
    by (simp add: skip_notices_def fresh_def py_str_def)
  have build: "outcome (root_xml example_collab
      (PDict [(''multibranch'', PDict (example_multibranch [?valid]))]) fresh) =
   outcome (root_xml example_collab
      (PDict [(''multibranch'', PDict (example_multibranch ?xs))]) fresh)"
    by (rule inst [THEN conjunct2, THEN conjunct2, THEN conjunct1, rule_format,
          OF m keys(1) m filtered same [rule_format]])
  have "\<exists>properties orphaned triggers.
      root_xml example_collab
        (PDict [(''multibranch'', PDict (example_multibranch ?ys))]) fresh =
        Inr (Element ''org.jenkinsci.plugins.workflow.multibranch.WorkflowMultiBranchProject''
                  [(''plugin'', ''workflow-multibranch'')] PNone
                  [properties, views, views_tab_bar, health_metrics, icon, orphaned, triggers,
                   Element ''sources''
                     [(''class'', ''jenkins.branch.MultiBranchProject$BranchSourceList''),
                      (''plugin'', ''branch-api'')] PNone
                     [Element ''data'' [] PNone [],
                      Element ''owner''
                        [(''class'',
                          ''org.jenkinsci.plugins.workflow.multibranch.WorkflowMultiBranchProject''),
                         (''reference'', ''../..'')] PNone []],
                   factory],
             fresh\<lparr>warnings := warnings fresh @ concat (map (skip_notices example_collab) ?ys)\<rparr>)"
    by (rule inst [THEN conjunct2, THEN conjunct2, THEN conjunct2, rule_format,
          OF m keys(3) keys(4) keys(2) all [rule_format]])
  then obtain document where "root_xml example_collab
        (PDict [(''multibranch'', PDict (example_multibranch ?ys))]) fresh =
      Inr (document,
        fresh\<lparr>warnings := warnings fresh @ concat (map (skip_notices example_collab) ?ys)\<rparr>)"
    by blast
  then have skipped: "\<exists>document.
      root_xml example_collab
        (PDict [(''multibranch'', PDict (example_multibranch ?ys))]) fresh =
        Inr (document,
             \<lparr>uuid_calls = 0,
                warnings = [''git_data = svn'', ''We cannot process scm'',
                            ''git_data = <repr>'', ''We cannot process scm'']\<rparr>)"
    by (simp add: skip_notices_def fresh_def py_str_def example_collab_def)
  show ?thesis
    by (intro conjI r entry build [symmetric] example_mixed_build skipped)
qed


section \<open>The scratch node\<close>

text \<open>
  C10. The git source generator removes the scratch node \<open>temp-git\<close> from the source
  node before it returns, with or without spliced extensions: no child of the
  returned source node has that tag. And whenever the build returns a document, no
  node tagged \<open>temp-git\<close> occurs anywhere in it, provided the \<open>extensions\<close> subtree
  that \<open>git\<close> of the scm module makes (the only part of its output that reaches the
  document) has no node with that tag of its own.
\<close>

theorem scratch_node_never_returned:
  "(generate_git_scm_xml C xml_parent v st = Inr (r, st1) \<longrightarrow>
      find_tag ''temp-git'' (last (children r)) = None) \<and>
   ((\<forall>data made temp_xml_scm temp_extensions.
       git C data = Inr made \<longrightarrow>
       find_tag ''scm'' (Element ''temp-git'' [] PNone made) = Some temp_xml_scm \<longrightarrow>
       find_tag ''extensions'' temp_xml_scm = Some temp_extensions \<longrightarrow>
       \<not> occurs ''temp-git'' temp_extensions) \<longrightarrow>
    root_xml C data st = Inr (document, st') \<longrightarrow>
      \<not> occurs ''temp-git'' document)"
proof (intro conjI impI)
  assume "generate_git_scm_xml C xml_parent v st = Inr (r, st1)"
  then show "find_tag ''temp-git'' (last (children r)) = None"
    by (rule generate_git_scm_xml_scratch_removed)
next
  assume clean: "\<forall>data made temp_xml_scm temp_extensions.
       git C data = Inr made \<longrightarrow>
       find_tag ''scm'' (Element ''temp-git'' [] PNone made) = Some temp_xml_scm \<longrightarrow>
       find_tag ''extensions'' temp_xml_scm = Some temp_extensions \<longrightarrow>
       \<not> occurs ''temp-git'' temp_extensions"
    and result: "root_xml C data st = Inr (document, st')"
  from root_xml_success_cases [OF result] show "\<not> occurs ''temp-git'' document"
  proof
    assume "document = root_element"
    then show ?thesis by simp
  next
    assume "\<exists>d pd. data = PDict d \<and> map_of d ''multibranch'' = Some (PDict pd)"
    then obtain d pd where d: "data = PDict d" "map_of d ''multibranch'' = Some (PDict pd)"
      by blast
    from root_xml_document [OF d(2) result [unfolded d(1)]]
    obtain properties orphaned triggers sources where
      p: "properties_block (PDict pd) = Inr properties"
      and o: "orphaned_item_strategy C (PDict pd) = Inr orphaned"
      and t: "triggers_block (PDict pd) = Inr triggers"
      and s: "sources_block C (PDict pd) st = Inr (sources, st')"
      and doc: "document =
         Element ''org.jenkinsci.plugins.workflow.multibranch.WorkflowMultiBranchProject''
           [(''plugin'', ''workflow-multibranch'')] PNone
           [properties, views, views_tab_bar, health_metrics, icon, orphaned,
            triggers, sources, factory]"
      by blast
    have "\<not> occurs ''temp-git'' sources"
      using clean by (intro sources_block_without_scratch [OF _ s]) blast
    with properties_block_without_scratch [OF p] orphaned_item_strategy_without_scratch [OF o]
      triggers_block_without_scratch [OF t]
    show ?thesis
      by (simp add: doc)
  qed
qed

theorem scratch_node_never_returned_witness:
  "\<not> occurs ''temp-git''
      (fst (projr (root_xml example_collab
         (PDict [(''multibranch'',
            PDict (example_multibranch
              [PStr ''svn'', PDict [(''git'', PDict example_git)], PDict [(''hg'', PNone)]]))])
         fresh))) \<and>
   find_tag ''temp-git''
      (last (children (fst (projr
         (generate_git_scm_xml example_collab
            (Element ''jenkins.branch.BranchSource'' [] PNone []) (PDict example_git) fresh))))) =
     None"
proof -
  let ?data = "PDict [(''multibranch'',
            PDict (example_multibranch
              [PStr ''svn'', PDict [(''git'', PDict example_git)], PDict [(''hg'', PNone)]]))]"
  let ?parent = "Element ''jenkins.branch.BranchSource'' [] PNone []"
  obtain document st' where build: "root_xml example_collab ?data fresh = Inr (document, st')"
    using example_mixed_build by blast
  obtain r st1 where
    made: "generate_git_scm_xml example_collab ?parent (PDict example_git) fresh = Inr (r, st1)"
    by (simp add: generate_git_scm_xml_dict example_git_keys example_git_made)
  have clean: "\<forall>data made temp_xml_scm temp_extensions.
       git example_collab data = Inr made \<longrightarrow>
       find_tag ''scm'' (Element ''temp-git'' [] PNone made) = Some temp_xml_scm \<longrightarrow>
       find_tag ''extensions'' temp_xml_scm = Some temp_extensions \<longrightarrow>
       \<not> occurs ''temp-git'' temp_extensions"
    by (auto simp: example_git_made example_scm_def)
  note inst = scratch_node_never_returned
    [where C = example_collab and st = fresh and data = ?data and document = document
      and st' = st' and xml_parent = ?parent and v = "PDict example_git" and r = r
      and ?st1.0 = st1]
  from inst made have "find_tag ''temp-git'' (last (children r)) = None"
    by blast
  moreover from inst clean build have "\<not> occurs ''temp-git'' document"
    by blast
  ultimately show ?thesis
    by (simp add: build made)
qed

end
